theory Spec2Isabelle
  imports Main "HOL-Library.Sublist"
begin

section \<open>The document-generation handler of latte\<close>

text \<open>
  This theory embeds \<^verbatim>\<open>handleGenerate\<close> of
  \<^verbatim>\<open>internal/server/generate-route.go\<close>: the HTTP handler that resolves a
  template, resource files and a details object, and runs the typesetting
  engine in a temporary directory.  The handler is one Go closure; the
  embedding follows its blocks in source order, one definition per block,
  threading the shared state (the two caches with their mutexes, the local
  disk, the log) explicitly.  Every \<^verbatim>\<open>return\<close> of the closure before the
  compilation is a branch ending in \<open>Inl\<close>.
\<close>

subsection \<open>Data\<close>

type_synonym path = string
type_synonym bytes = string

text \<open>The struct \<^verbatim>\<open>delimiters\<close> (lines 22-25).\<close>

record delimiters =
  Left :: string
  Right :: string

text \<open>A decoded JSON value, for \<^verbatim>\<open>map[string]interface{}\<close>.\<close>

datatype json =
    JNull | JBool bool | JNumber int | JString string
  | JArray "json list" | JObject "(string \<times> json) list"

type_synonym details_map = "(string \<times> json) list"

text \<open>The struct \<^verbatim>\<open>request\<close> (lines 26-34); a nil pointer is \<open>None\<close>.  The Go
  map \<^verbatim>\<open>Resources\<close> is the list of its entries in the order the
  \<^verbatim>\<open>range\<close> loop visits them.\<close>

record request =
  Template :: string
  Details :: details_map
  Resources :: "(string \<times> string) list"
  Delimiters :: "delimiters option"

text \<open>The struct \<^verbatim>\<open>errorResponse\<close> (lines 35-38) and the other things the
  handler writes to the \<^verbatim>\<open>http.ResponseWriter\<close>.\<close>

datatype payload =
    Text string
  | ErrorResponse string string
  | Pdf bytes

text \<open>A parsed \<^verbatim>\<open>*template.Template\<close> is an object on the heap; the caches
  and the job hold pointers to it.\<close>

datatype node = TextNode string | ActionNode string

record template =
  tname :: string
  tdelims :: delimiters
  tree :: "node list"

type_synonym tref = nat

text \<open>The struct \<^verbatim>\<open>job\<close> (lines 39-43); a nil \<^verbatim>\<open>tmpl\<close> is \<open>None\<close>.\<close>

record job =
  tmpl :: "tref option"
  details :: details_map
  dir :: path

text \<open>What \<^verbatim>\<open>s.db.Fetch\<close> returns: a \<^verbatim>\<open>*NotFoundError\<close>, another
  error, or the data as \<^verbatim>\<open>[]byte\<close> or \<^verbatim>\<open>io.ReadCloser\<close> (the interface
  \<^verbatim>\<open>DB\<close> of \<^verbatim>\<open>server/database.go\<close>).\<close>

datatype store_data = Bytes bytes | ReadCloser bytes

datatype fetch_result = NotFoundError | FetchError string | Fetched store_data

text \<open>The fields of \<^verbatim>\<open>Server\<close> the handler reads; \<^verbatim>\<open>db == nil\<close> is
  \<open>None\<close>.\<close>

record server =
  rootDir :: path
  cmd :: string
  db :: "(string \<Rightarrow> fetch_result) option"
  tCacheSize :: int
  rCacheSize :: int

text \<open>The request as the handler reads it: the Content-Type header, the
  outcome of \<^verbatim>\<open>json.NewDecoder(r.Body).Decode(&req)\<close>, and the URL query
  as the list of its key-value pairs.\<close>

datatype body_decode = BodyEOF | BodyError string | Decoded request

record http_request =
  content_type :: string
  body :: body_decode
  query :: "(string \<times> string) list"

definition query_Get :: "(string \<times> string) list \<Rightarrow> string \<Rightarrow> string" where
  "query_Get q k = (case filter (\<lambda>kv. fst kv = k) q of [] \<Rightarrow> [] | kv # _ \<Rightarrow> snd kv)"

definition query_values :: "(string \<times> string) list \<Rightarrow> string \<Rightarrow> string list" where
  "query_values q k = map snd (filter (\<lambda>kv. fst kv = k) q)"

subsection \<open>The outside world\<close>

text \<open>
  Library functions and the behaviour of the operating system are
  parameters of the model: the theorems hold for every hash function,
  every base64 decoder, every template parser and every pattern of
  input-output failures.
\<close>

record world =
  md5_hex :: "string \<Rightarrow> string"
  base64_decode :: "string \<Rightarrow> string + bytes"
  text_parse :: "delimiters \<Rightarrow> bytes \<Rightarrow> string + node list"
  json_decode :: "bytes \<Rightarrow> string + details_map"
  path_join :: "path \<Rightarrow> string \<Rightarrow> path"
  temp_dir :: "path \<Rightarrow> string + path"
  stat_error :: "path \<Rightarrow> string option"
  read_error :: "path \<Rightarrow> string option"
  write_error :: "path \<Rightarrow> string option"
  symlink_error :: "path \<Rightarrow> path \<Rightarrow> string option"
  remove_error :: "path \<Rightarrow> string option"
  run_compile :: "template option \<Rightarrow> details_map \<Rightarrow> path \<Rightarrow> string \<Rightarrow> (string \<times> string) + (string \<times> bytes option)"

subsection \<open>The LRU cache\<close>

text \<open>
  Modelled from the spec: the cache of \<^verbatim>\<open>github.com/hashicorp/golang-lru\<close>,
  a library outside the repository.  The spec (4.1) gives its contract:
  \<^verbatim>\<open>get(key) -> (value, found)\<close>, \<^verbatim>\<open>put(key, value)\<close> evicting the
  least-recently-used entry if at capacity, a capacity fixed at construction
  and a non-positive capacity a construction-time error.  The entries are
  kept most recently used first; a successful \<^verbatim>\<open>Get\<close> moves its entry to
  the front.
\<close>

record ('k, 'v) lru =
  cap :: int
  items :: "('k \<times> 'v) list"

definition lru_New :: "int \<Rightarrow> string + ('k, 'v) lru" where
  "lru_New n = (if n \<le> 0 then Inl ''Must provide a positive size''
                else Inr \<lparr>cap = n, items = []\<rparr>)"

definition lru_Get :: "('k, 'v) lru \<Rightarrow> 'k \<Rightarrow> 'v option \<times> ('k, 'v) lru" where
  "lru_Get c k =
     (case map_of (items c) k of
        None \<Rightarrow> (None, c)
      | Some v \<Rightarrow> (Some v, c\<lparr>items := (k, v) # filter (\<lambda>e. fst e \<noteq> k) (items c)\<rparr>))"

definition lru_Add :: "('k, 'v) lru \<Rightarrow> 'k \<Rightarrow> 'v \<Rightarrow> ('k, 'v) lru" where
  "lru_Add c k v =
     (case map_of (items c) k of
        Some _ \<Rightarrow> c\<lparr>items := (k, v) # filter (\<lambda>e. fst e \<noteq> k) (items c)\<rparr>
      | None \<Rightarrow>
          (let xs = (k, v) # items c
           in c\<lparr>items := (if int (length xs) > cap c then butlast xs else xs)\<rparr>))"

subsection \<open>The shared state\<close>

datatype event =
    InfoLog string
  | ErrLog string
  | Fetch string
  | Parse string
  | ToDisk path
  | RemoveAll path

text \<open>
  \<^verbatim>\<open>tmpls\<close> and \<^verbatim>\<open>rscs\<close> (lines 44-61) are a cache and an embedded
  \<^verbatim>\<open>sync.Mutex\<close> each.  The disk holds regular files, directories and
  symbolic links.  \<open>objs\<close> is the heap of parsed templates, a pointer being
  an index into it.  \<open>events\<close> records, oldest first, the log lines and the
  calls whose occurrence matters (Store fetches, template parses, disk
  writes of fetched data, the removal of the workspace).
\<close>

record state =
  tmpls_t :: "(string, tref) lru"
  tmpls_locked :: bool
  rscs_r :: "(string, path) lru"
  rscs_locked :: bool
  disk :: "path \<Rightarrow> bytes option"
  dirs :: "path list"
  links :: "(path \<times> path) list"
  objs :: "template list"
  events :: "event list"

text \<open>How one call of the handler ends: it returns after writing a response
  with a status code; or the Go runtime aborts the process with a fatal
  error; or it waits for a mutex that is held.\<close>

datatype exit = Done nat payload | Fatal string | Blocked

type_synonym 'a step = "(exit \<times> state) + 'a"

definition seq :: "'a step \<Rightarrow> ('a \<Rightarrow> 'b step) \<Rightarrow> 'b step" where
  "seq m f = (case m of Inl e \<Rightarrow> Inl e | Inr x \<Rightarrow> f x)"

definition record_event :: "event \<Rightarrow> state \<Rightarrow> state" where
  "record_event e s = s\<lparr>events := events s @ [e]\<rparr>"

subsection \<open>Mutexes\<close>

text \<open>
  \<^verbatim>\<open>sync.Mutex\<close>: \<^verbatim>\<open>Lock\<close> on a held mutex waits; \<^verbatim>\<open>Unlock\<close> on a mutex
  that is not held is the fatal error
  \<^verbatim>\<open>sync: unlock of unlocked mutex\<close>, which ends the process without
  running deferred functions.  A mutex has no owner: \<^verbatim>\<open>Unlock\<close> releases
  it whoever locked it.
\<close>

datatype mutex = Tmpls | Rscs

definition held :: "mutex \<Rightarrow> state \<Rightarrow> bool" where
  "held m s = (case m of Tmpls \<Rightarrow> tmpls_locked s | Rscs \<Rightarrow> rscs_locked s)"

definition set_held :: "mutex \<Rightarrow> bool \<Rightarrow> state \<Rightarrow> state" where
  "set_held m b s = (case m of Tmpls \<Rightarrow> s\<lparr>tmpls_locked := b\<rparr> | Rscs \<Rightarrow> s\<lparr>rscs_locked := b\<rparr>)"

definition Lock :: "mutex \<Rightarrow> state \<Rightarrow> state step" where
  "Lock m s = (if held m s then Inl (Blocked, s) else Inr (set_held m True s))"

definition Unlock :: "mutex \<Rightarrow> state \<Rightarrow> state step" where
  "Unlock m s = (if held m s then Inr (set_held m False s)
                 else Inl (Fatal ''sync: unlock of unlocked mutex'', s))"

subsection \<open>Logging and responses\<close>

definition log_err :: "string \<Rightarrow> state \<Rightarrow> state" where
  "log_err msg s = record_event (ErrLog msg) s"

text \<open>\<^verbatim>\<open>http.Error(w, msg, code)\<close> followed by \<^verbatim>\<open>return\<close>.\<close>

definition http_Error :: "string \<Rightarrow> nat \<Rightarrow> state \<Rightarrow> 'a step" where
  "http_Error msg code s = Inl (Done code (Text msg), s)"

text \<open>
  Modelled from the spec: the method \<^verbatim>\<open>respond\<close> of \<^verbatim>\<open>Server\<close>, which is
  defined in another file of package \<^verbatim>\<open>server\<close>.  The spec (6, 7 and scenarios B and D) has the
  handler answer with the given payload under the given HTTP status.  Here
  it is followed by the handler's \<^verbatim>\<open>return\<close>.
\<close>

definition respond :: "payload \<Rightarrow> nat \<Rightarrow> state \<Rightarrow> 'a step" where
  "respond p code s = Inl (Done code p, s)"

text \<open>The pattern of lines 291-295: an \<^verbatim>\<open>errorResponse\<close> sent with
  \<^verbatim>\<open>respond\<close>, then logged.\<close>

definition respond_error :: "string \<Rightarrow> string \<Rightarrow> nat \<Rightarrow> state \<Rightarrow> 'a step" where
  "respond_error msg data code s = respond (ErrorResponse msg data) code (log_err msg s)"

subsection \<open>The local disk\<close>

datatype stat_result = StatOk | StatNotExist | StatError string

definition present :: "state \<Rightarrow> path \<Rightarrow> bool" where
  "present s p \<longleftrightarrow> \<not> (disk s p = None \<and> p \<notin> set (dirs s) \<and> map_of (links s) p = None)"

text \<open>\<^verbatim>\<open>os.Stat\<close>.  The empty path names no file: \<^verbatim>\<open>stat("")\<close> fails with
  \<^verbatim>\<open>ENOENT\<close>, which \<^verbatim>\<open>os.IsNotExist\<close> recognises.\<close>

definition os_Stat :: "world \<Rightarrow> state \<Rightarrow> path \<Rightarrow> stat_result" where
  "os_Stat w s p =
     (if p = [] then StatNotExist
      else case stat_error w p of
             Some err \<Rightarrow> StatError err
           | None \<Rightarrow> if present s p then StatOk else StatNotExist)"

definition os_IsNotExist :: "stat_result \<Rightarrow> bool" where
  "os_IsNotExist r \<longleftrightarrow> r = StatNotExist"

definition no_such_file :: "path \<Rightarrow> string" where
  "no_such_file p = ''open '' @ p @ '': no such file or directory''"

text \<open>\<^verbatim>\<open>ioutil.ReadFile\<close>, and \<^verbatim>\<open>os.Open\<close> followed by reading the file to
  its end; a symbolic link is followed once.\<close>

definition os_ReadFile :: "world \<Rightarrow> state \<Rightarrow> path \<Rightarrow> string + bytes" where
  "os_ReadFile w s p =
     (case read_error w p of
        Some err \<Rightarrow> Inl err
      | None \<Rightarrow>
          (let q = (case map_of (links s) p of Some target \<Rightarrow> target | None \<Rightarrow> p)
           in case disk s q of None \<Rightarrow> Inl (no_such_file p) | Some b \<Rightarrow> Inr b))"

definition os_WriteFile :: "world \<Rightarrow> path \<Rightarrow> bytes \<Rightarrow> state \<Rightarrow> string + state" where
  "os_WriteFile w p b s =
     (case write_error w p of
        Some err \<Rightarrow> Inl err
      | None \<Rightarrow> Inr (s\<lparr>disk := (disk s)(p \<mapsto> b)\<rparr>))"

definition os_Symlink :: "world \<Rightarrow> path \<Rightarrow> path \<Rightarrow> state \<Rightarrow> string + state" where
  "os_Symlink w oldname newname s =
     (case symlink_error w oldname newname of
        Some err \<Rightarrow> Inl err
      | None \<Rightarrow>
          if present s newname
          then Inl (''symlink '' @ oldname @ '' '' @ newname @ '': file exists'')
          else Inr (s\<lparr>links := (newname, oldname) # links s\<rparr>))"

definition os_TempDir :: "world \<Rightarrow> path \<Rightarrow> state \<Rightarrow> string + (path \<times> state)" where
  "os_TempDir w root s =
     (case temp_dir w root of
        Inl err \<Rightarrow> Inl err
      | Inr d \<Rightarrow> Inr (d, s\<lparr>dirs := d # dirs s\<rparr>))"

definition inside :: "path \<Rightarrow> path \<Rightarrow> bool" where
  "inside d p \<longleftrightarrow> p = d \<or> prefix (d @ ''/'') p"

text \<open>\<^verbatim>\<open>os.RemoveAll\<close>: the directory and all below it are gone, or an error
  is returned (what a failed removal leaves behind is not modelled: the
  disk is then as before).\<close>

definition os_RemoveAll :: "world \<Rightarrow> path \<Rightarrow> state \<Rightarrow> string option \<times> state" where
  "os_RemoveAll w d s =
     (case remove_error w d of
        Some err \<Rightarrow> (Some err, record_event (RemoveAll d) s)
      | None \<Rightarrow>
          (None, record_event (RemoveAll d)
             (s\<lparr>disk := (\<lambda>p. if inside d p then None else disk s p),
                dirs := filter (\<lambda>p. \<not> inside d p) (dirs s),
                links := filter (\<lambda>l. \<not> inside d (fst l)) (links s)\<rparr>)))"

text \<open>
  Modelled from the spec: the function \<^verbatim>\<open>toDisk\<close>, which is defined in
  another file of package \<^verbatim>\<open>server\<close>.  The spec (4.2, 4.3) has
  the fetched bytes written to local disk at the given path, a failure
  being a filesystem error.  A stream is read to its end by being written.
\<close>

definition content_of :: "store_data \<Rightarrow> bytes" where
  "content_of d = (case d of Bytes b \<Rightarrow> b | ReadCloser b \<Rightarrow> b)"

definition toDisk :: "world \<Rightarrow> store_data \<Rightarrow> path \<Rightarrow> state \<Rightarrow> string option \<times> state" where
  "toDisk w d p s =
     (case os_WriteFile w p (content_of d) (record_event (ToDisk p) s) of
        Inl err \<Rightarrow> (Some err, record_event (ToDisk p) s)
      | Inr s' \<Rightarrow> (None, s'))"

subsection \<open>The Store and the template parser\<close>

definition store_Fetch :: "(string \<Rightarrow> fetch_result) \<Rightarrow> string \<Rightarrow> state \<Rightarrow> fetch_result \<times> state" where
  "store_Fetch fetch uid s = (fetch uid, record_event (Fetch uid) s)"

text \<open>\<^verbatim>\<open>template.New(name).Delims(left, right)\<close> followed by \<^verbatim>\<open>Parse\<close>: a
  new template object is allocated when the text parses.\<close>

definition template_Parse ::
  "world \<Rightarrow> string \<Rightarrow> delimiters \<Rightarrow> bytes \<Rightarrow> state \<Rightarrow> (string + tref) \<times> state" where
  "template_Parse w name d txt s =
     (case text_parse w d txt of
        Inl err \<Rightarrow> (Inl err, record_event (Parse name) s)
      | Inr nodes \<Rightarrow>
          (Inr (length (objs s)),
           record_event (Parse name)
             (s\<lparr>objs := objs s @ [\<lparr>tname = name, tdelims = d, tree = nodes\<rparr>]\<rparr>)))"

definition deref :: "state \<Rightarrow> tref \<Rightarrow> template option" where
  "deref s t = (if t < length (objs s) then Some (objs s ! t) else None)"

subsection \<open>The JSON body (lines 82-156)\<close>

text \<open>Lines 95-102: the delimiters of the body replace the default pair
  when both are given.\<close>

definition check_delimiters :: "request \<Rightarrow> delimiters \<Rightarrow> state \<Rightarrow> (delimiters \<times> state) step" where
  "check_delimiters req delims s =
     (case Delimiters req of
        None \<Rightarrow> Inr (delims, s)
      | Some d \<Rightarrow>
          if Left d = [] \<or> Right d = []
          then respond (Text ''only received one delimiter; need none or both'') 400 s
          else Inr (d, s))"

text \<open>Line 108: the cache key of an inline template.\<close>

definition cid :: "world \<Rightarrow> string \<Rightarrow> delimiters \<Rightarrow> string" where
  "cid w template_text delims = md5_hex w template_text @ Left delims @ Right delims"

text \<open>Lines 103-135, entered when \<^verbatim>\<open>req.Template\<close> is not empty.\<close>

definition inline_template :: "world \<Rightarrow> request \<Rightarrow> delimiters \<Rightarrow> job \<Rightarrow> state \<Rightarrow> (job \<times> state) step" where
  "inline_template w req delims j s =
     (let k = cid w (Template req) delims in
      seq (Lock Tmpls s) (\<lambda>s.
        case lru_Get (tmpls_t s) k of
          (Some ti, c) \<Rightarrow>
            seq (Unlock Tmpls (s\<lparr>tmpls_t := c\<rparr>)) (\<lambda>s. Inr (j\<lparr>tmpl := Some ti\<rparr>, s))
        | (None, c) \<Rightarrow>
            (case base64_decode w (Template req) of
               Inl err \<Rightarrow> seq (Unlock Tmpls s) (\<lambda>s. http_Error err 500 (log_err err s))
             | Inr tBytes \<Rightarrow>
                 (case template_Parse w k delims tBytes s of
                    (Inl err, s) \<Rightarrow> seq (Unlock Tmpls s) (\<lambda>s. http_Error err 500 (log_err err s))
                  | (Inr t, s) \<Rightarrow>
                      seq (Unlock Tmpls (s\<lparr>tmpls_t := lru_Add (tmpls_t s) k t\<rparr>))
                        (\<lambda>s. Inr (j\<lparr>tmpl := Some t\<rparr>, s))))))"

text \<open>Lines 141-155: the inline resources are decoded and written into the
  working directory.\<close>

fun write_resources :: "world \<Rightarrow> path \<Rightarrow> (string \<times> string) list \<Rightarrow> state \<Rightarrow> state step" where
  "write_resources w workDir [] s = Inr s"
| "write_resources w workDir ((name, data) # rest) s =
     (let fname = path_join w workDir name in
      case base64_decode w data of
        Inl err \<Rightarrow> http_Error err 500 (log_err err s)
      | Inr bs \<Rightarrow>
          (case os_WriteFile w fname bs s of
             Inl err \<Rightarrow> http_Error err 500 (log_err err s)
           | Inr s' \<Rightarrow> write_resources w workDir rest s'))"

definition json_body ::
  "world \<Rightarrow> http_request \<Rightarrow> path \<Rightarrow> delimiters \<Rightarrow> job \<Rightarrow> state \<Rightarrow> (job \<times> delimiters \<times> state) step" where
  "json_body w r workDir delims j s =
     (if content_type r = ''application/json'' then
        (case body r of
           BodyEOF \<Rightarrow>
             respond (Text ''request header Content-Type set to application/json; received empty body'') 400 s
         | BodyError err \<Rightarrow> http_Error err 500 (log_err err s)
         | Decoded req \<Rightarrow>
             seq (check_delimiters req delims s) (\<lambda>(delims, s).
             seq (if Template req \<noteq> [] then inline_template w req delims j s else Inr (j, s)) (\<lambda>(j, s).
             (let j = (if length (Details req) > 0 then j\<lparr>details := Details req\<rparr> else j) in
              seq (write_resources w workDir (Resources req) s) (\<lambda>s. Inr (j, delims, s))))))
      else Inr (j, delims, s))"

subsection \<open>The template named in the URL (lines 160-233)\<close>

definition template_not_found :: "string \<Rightarrow> string" where
  "template_not_found tmplID = ''template with id '' @ tmplID @ '' not found''"

text \<open>Lines 169-204: the file is looked up on local disk and downloaded if it
  is not there.  \<^verbatim>\<open>tmplID\<close> is the variable of that name, as it is at
  these lines.\<close>

definition template_to_disk :: "world \<Rightarrow> server \<Rightarrow> string \<Rightarrow> path \<Rightarrow> state \<Rightarrow> state step" where
  "template_to_disk w srv tmplID tmplPath s =
     (case os_Stat w s tmplPath of
        StatNotExist \<Rightarrow>
          (case db srv of
             None \<Rightarrow> seq (Unlock Tmpls s) (\<lambda>s. respond (Text (template_not_found tmplID)) 400 s)
           | Some fetch \<Rightarrow>
               (case store_Fetch fetch tmplID s of
                  (NotFoundError, s) \<Rightarrow>
                    seq (Unlock Tmpls s) (\<lambda>s. http_Error (template_not_found tmplID) 500 s)
                | (FetchError err, s) \<Rightarrow>
                    seq (Unlock Tmpls s) (\<lambda>s. http_Error err 500 (log_err err s))
                | (Fetched rawData, s) \<Rightarrow>
                    (case toDisk w rawData tmplPath s of
                       (Some err, s) \<Rightarrow>
                         seq (Unlock Tmpls s) (\<lambda>s. http_Error err 500
                           (log_err (''error while writing to '' @ tmplPath @ '': '' @ err) s))
                     | (None, s) \<Rightarrow> Inr s)))
      | StatError err \<Rightarrow> seq (Unlock Tmpls s) (\<lambda>s. http_Error err 500 (log_err err s))
      | StatOk \<Rightarrow> Inr s)"

definition url_template ::
  "world \<Rightarrow> server \<Rightarrow> http_request \<Rightarrow> delimiters \<Rightarrow> job \<Rightarrow> state \<Rightarrow> (job \<times> state) step" where
  "url_template w srv r delims j s =
     (let tmplID = query_Get (query r) ''tmpl'' in
      if tmpl j = None \<and> tmplID \<noteq> [] then
        (let tmplID = tmplID @ Left delims @ Right delims in
         seq (Lock Tmpls s) (\<lambda>s.
           case lru_Get (tmpls_t s) tmplID of
             (Some ti, c) \<Rightarrow>
               seq (Unlock Tmpls (s\<lparr>tmpls_t := c\<rparr>)) (\<lambda>s. Inr (j\<lparr>tmpl := Some ti\<rparr>, s))
           | (None, c) \<Rightarrow>
               (let tmplPath = path_join w (rootDir srv) tmplID in
                seq (template_to_disk w srv tmplID tmplPath s) (\<lambda>s.
                  case os_ReadFile w s tmplPath of
                    Inl err \<Rightarrow> seq (Unlock Tmpls s) (\<lambda>s. http_Error err 500 (log_err err s))
                  | Inr tmplBytes \<Rightarrow>
                      (case template_Parse w tmplID delims tmplBytes s of
                         (Inl err, s) \<Rightarrow>
                           seq (Unlock Tmpls s) (\<lambda>s. http_Error err 500 (log_err err s))
                       | (Inr t, s) \<Rightarrow>
                           seq (Unlock Tmpls (s\<lparr>tmpls_t := lru_Add (tmpls_t s) tmplID t\<rparr>))
                             (\<lambda>s. Inr (j\<lparr>tmpl := Some t\<rparr>, s)))))))
      else if tmpl j = None then
        http_Error ''no template provided'' 400 (log_err ''no template provided'' s)
      else Inr (j, s))"

subsection \<open>The resources named in the URL (lines 235-283)\<close>

definition resource_not_found :: "string \<Rightarrow> string" where
  "resource_not_found rscID = ''resource with id '' @ rscID @ '' not found''"

text \<open>Lines 238-276, one pass of the loop up to the release of the mutex:
  the path of the resource.  \<^verbatim>\<open>rscPath\<close> is declared at line 240 and still
  the empty string when line 241 passes it to \<^verbatim>\<open>os.Stat\<close>.  At line 267
  the source calls \<^verbatim>\<open>tmpls.Unlock()\<close>.\<close>

definition resource_path :: "world \<Rightarrow> server \<Rightarrow> string \<Rightarrow> state \<Rightarrow> (path \<times> state) step" where
  "resource_path w srv rscID s =
     seq (Lock Rscs s) (\<lambda>s.
       case lru_Get (rscs_r s) rscID of
         (rscPathi, c) \<Rightarrow>
           (let s = s\<lparr>rscs_r := c\<rparr>; rscPath = [] in
            seq (if os_IsNotExist (os_Stat w s rscPath) \<or> rscPathi = None then
                   (case db srv of
                      None \<Rightarrow>
                        seq (Unlock Rscs s) (\<lambda>s. respond (Text (resource_not_found rscID)) 400 s)
                    | Some fetch \<Rightarrow>
                        (case store_Fetch fetch rscID s of
                           (NotFoundError, s) \<Rightarrow>
                             seq (Unlock Rscs s) (\<lambda>s. http_Error (resource_not_found rscID) 500 s)
                         | (FetchError err, s) \<Rightarrow>
                             seq (Unlock Rscs s) (\<lambda>s. http_Error err 500 (log_err err s))
                         | (Fetched rscData, s) \<Rightarrow>
                             (let rscPath = path_join w (rootDir srv) rscID in
                              case toDisk w rscData rscPath s of
                                (Some err, s) \<Rightarrow>
                                  seq (Unlock Tmpls s) (\<lambda>s. http_Error err 500
                                    (log_err (''error while writing to '' @ rscPath @ '': '' @ err) s))
                              | (None, s) \<Rightarrow>
                                  Inr (rscPath, s\<lparr>rscs_r := lru_Add (rscs_r s) rscID rscPath\<rparr>))))
                 else Inr (the rscPathi, s))
              (\<lambda>(rscPath, s). seq (Unlock Rscs s) (\<lambda>s. Inr (rscPath, s)))))"

text \<open>Lines 236-283: the loop; each resource is linked into the working
  directory.\<close>

fun link_resources :: "world \<Rightarrow> server \<Rightarrow> path \<Rightarrow> string list \<Rightarrow> state \<Rightarrow> state step" where
  "link_resources w srv workDir [] s = Inr s"
| "link_resources w srv workDir (rscID # rest) s =
     seq (resource_path w srv rscID s) (\<lambda>(rscPath, s).
       case os_Symlink w rscPath (path_join w workDir rscID) s of
         Inl err \<Rightarrow> http_Error err 500 (log_err err s)
       | Inr s' \<Rightarrow> link_resources w srv workDir rest s')"

subsection \<open>The details named in the URL (lines 285-392)\<close>

definition details_not_found :: "string \<Rightarrow> string" where
  "details_not_found dtID = ''details json with id '' @ dtID @ '' not found''"

text \<open>Lines 329-356: the fetched data are decoded.  A stream has been read
  to its end by \<^verbatim>\<open>toDisk\<close>, so the decoder finds nothing left in it.\<close>

definition decode_fetched :: "world \<Rightarrow> store_data \<Rightarrow> job \<Rightarrow> state \<Rightarrow> (job \<times> state) step" where
  "decode_fetched w dtlsData j s =
     (case json_decode w (case dtlsData of Bytes b \<Rightarrow> b | ReadCloser _ \<Rightarrow> []) of
        Inl err \<Rightarrow> respond_error ''error while decoding json'' err 500 s
      | Inr d \<Rightarrow> Inr (j\<lparr>details := d\<rparr>, s))"

text \<open>Lines 287-366.\<close>

definition details_to_disk ::
  "world \<Rightarrow> server \<Rightarrow> string \<Rightarrow> path \<Rightarrow> job \<Rightarrow> state \<Rightarrow> (job \<times> state) step" where
  "details_to_disk w srv dtID dtlsPath j s =
     (case os_Stat w s dtlsPath of
        StatNotExist \<Rightarrow>
          (case db srv of
             None \<Rightarrow> respond_error (details_not_found dtID) [] 500 s
           | Some fetch \<Rightarrow>
               (case store_Fetch fetch dtID s of
                  (NotFoundError, s) \<Rightarrow> respond_error (details_not_found dtID) [] 500 s
                | (FetchError err, s) \<Rightarrow>
                    respond_error ''error while getting json file info'' err 500 s
                | (Fetched dtlsData, s) \<Rightarrow>
                    (case toDisk w dtlsData dtlsPath s of
                       (Some err, s) \<Rightarrow>
                         respond_error ''error while writing json file to disk'' err 500 s
                     | (None, s) \<Rightarrow> decode_fetched w dtlsData j s)))
      | StatError err \<Rightarrow> respond_error ''error while getting json file info'' err 500 s
      | StatOk \<Rightarrow> Inr (j, s))"

definition url_details :: "world \<Rightarrow> server \<Rightarrow> http_request \<Rightarrow> job \<Rightarrow> state \<Rightarrow> (job \<times> state) step" where
  "url_details w srv r j s =
     (let dtID = query_Get (query r) ''dtls'' in
      if length (details j) = 0 \<and> dtID \<noteq> [] then
        (let dtlsPath = path_join w (rootDir srv) dtID in
         seq (details_to_disk w srv dtID dtlsPath j s) (\<lambda>(j, s).
           if length (details j) = 0 then
             (case os_ReadFile w s dtlsPath of
                Inl err \<Rightarrow> respond_error ''error while opening json file'' err 500 s
              | Inr content \<Rightarrow>
                  (case json_decode w content of
                     Inl err \<Rightarrow> respond_error ''error while decoding json'' err 500 s
                   | Inr d \<Rightarrow> Inr (j\<lparr>details := d\<rparr>, s)))
           else Inr (j, s)))
      else Inr (j, s))"

subsection \<open>Compilation and the response (lines 393-411)\<close>

text \<open>\<^verbatim>\<open>compile.Compile\<close> runs the typesetting engine: an error with the
  captured output, or the name of the PDF, which the engine has written
  into the working directory unless it produced none.\<close>

definition compile_and_send :: "world \<Rightarrow> server \<Rightarrow> path \<Rightarrow> job \<Rightarrow> state \<Rightarrow> exit \<times> state" where
  "compile_and_send w srv workDir j s =
     (case run_compile w (Option.bind (tmpl j) (deref s)) (details j) (dir j) (cmd srv) of
        Inl (pdfPath, err) \<Rightarrow> (Done 500 (ErrorResponse err pdfPath), log_err err s)
      | Inr (pdfPath, produced) \<Rightarrow>
          (let out = path_join w workDir pdfPath;
               s = (case produced of None \<Rightarrow> s | Some b \<Rightarrow> s\<lparr>disk := (disk s)(out \<mapsto> b)\<rparr>)
           in case os_ReadFile w s out of
                Inl err \<Rightarrow>
                  (Done 500 (ErrorResponse ''encountered an error'' []),
                   log_err ''encountered an error'' s)
              | Inr pdf \<Rightarrow> (Done 200 (Pdf pdf), s)))"

subsection \<open>The handler (lines 62-412)\<close>

text \<open>Line 80.\<close>

definition default_delims :: delimiters where
  "default_delims = \<lparr>Left = ''#!'', Right = ''!#''\<rparr>"

definition handler_body :: "world \<Rightarrow> server \<Rightarrow> http_request \<Rightarrow> path \<Rightarrow> state \<Rightarrow> exit \<times> state" where
  "handler_body w srv r workDir s =
     (let j = \<lparr>tmpl = None, details = [], dir = workDir\<rparr>;
          delims = default_delims
      in case
           seq (json_body w r workDir delims j s) (\<lambda>(j, delims, s).
           seq (url_template w srv r delims j s) (\<lambda>(j, s).
           seq (link_resources w srv workDir (query_values (query r) ''rsc'') s) (\<lambda>s.
                url_details w srv r j s)))
         of Inl e \<Rightarrow> e
          | Inr (j, s) \<Rightarrow> compile_and_send w srv workDir j s)"

text \<open>Lines 72-78: the deferred function starts a goroutine that removes the
  working directory and logs a failure.  The deferred function runs when
  the closure returns; the model runs the removal at that moment.\<close>

definition remove_workDir :: "world \<Rightarrow> path \<Rightarrow> state \<Rightarrow> state" where
  "remove_workDir w workDir s =
     (case os_RemoveAll w workDir s of
        (Some err, s) \<Rightarrow> log_err err s
      | (None, s) \<Rightarrow> s)"

definition handler :: "world \<Rightarrow> server \<Rightarrow> http_request \<Rightarrow> state \<Rightarrow> exit \<times> state" where
  "handler w srv r s =
     (case os_TempDir w (rootDir srv) s of
        Inl err \<Rightarrow> (Done 500 (Text err), log_err err s)
      | Inr (workDir, s) \<Rightarrow>
          (case handler_body w srv r workDir
                  (record_event (InfoLog (''created new temp directory: '' @ workDir)) s) of
             (Done code p, s) \<Rightarrow> (Done code p, remove_workDir w workDir s)
           | (Fatal msg, s) \<Rightarrow> (Fatal msg, s)
           | (Blocked, s) \<Rightarrow> (Blocked, s)))"

text \<open>Lines 52-61: \<^verbatim>\<open>handleGenerate\<close> builds the two caches, with their
  mutexes free, and returns the closure above.\<close>

definition handleGenerate :: "server \<Rightarrow> state \<Rightarrow> string + state" where
  "handleGenerate srv s =
     (case lru_New (tCacheSize srv) of
        Inl err \<Rightarrow> Inl err
      | Inr tmplsCache \<Rightarrow>
          (case lru_New (rCacheSize srv) of
             Inl err \<Rightarrow> Inl err
           | Inr rscsCache \<Rightarrow>
               Inr (s\<lparr>tmpls_t := tmplsCache, tmpls_locked := False,
                      rscs_r := rscsCache, rscs_locked := False\<rparr>)))"

subsection \<open>Notions used in the statements\<close>

definition client_error :: "exit \<Rightarrow> bool" where
  "client_error e = (case e of Done code _ \<Rightarrow> 400 \<le> code \<and> code < 500 | _ \<Rightarrow> False)"

text \<open>The delimiters in force after lines 95-102, and whether the body's
  pair passes the check of line 97.\<close>

definition delims_of :: "request \<Rightarrow> delimiters" where
  "delims_of req = (case Delimiters req of None \<Rightarrow> default_delims | Some d \<Rightarrow> d)"

definition delims_complete :: "request \<Rightarrow> bool" where
  "delims_complete req =
     (case Delimiters req of None \<Rightarrow> True | Some d \<Rightarrow> Left d \<noteq> [] \<and> Right d \<noteq> [])"

text \<open>Every inline resource of the list decodes and can be written into the
  working directory.\<close>

definition resources_ok :: "world \<Rightarrow> path \<Rightarrow> (string \<times> string) list \<Rightarrow> bool" where
  "resources_ok w workDir rs =
     list_all (\<lambda>(name, data). case base64_decode w data of
                                 Inl _ \<Rightarrow> False
                               | Inr _ \<Rightarrow> write_error w (path_join w workDir name) = None) rs"

text \<open>The body carries no template, or its template is in the cache or
  decodes and parses, the mutex of the template cache being free.\<close>

definition inline_template_resolves :: "world \<Rightarrow> request \<Rightarrow> state \<Rightarrow> bool" where
  "inline_template_resolves w req s \<longleftrightarrow>
     Template req = [] \<or>
     (\<not> tmpls_locked s \<and>
      (case map_of (items (tmpls_t s)) (cid w (Template req) (delims_of req)) of
         Some _ \<Rightarrow> True
       | None \<Rightarrow>
           (case base64_decode w (Template req) of
              Inl _ \<Rightarrow> False
            | Inr tBytes \<Rightarrow>
                (case text_parse w (delims_of req) tBytes of Inl _ \<Rightarrow> False | Inr _ \<Rightarrow> True))))"

text \<open>The state in which the body of the handler starts, once the working
  directory exists (lines 65-71).\<close>

definition entered :: "path \<Rightarrow> state \<Rightarrow> state" where
  "entered workDir s =
     record_event (InfoLog (''created new temp directory: '' @ workDir))
       (s\<lparr>dirs := workDir # dirs s\<rparr>)"

subsection \<open>A concrete deployment\<close>

text \<open>
  A small world to run the handler in: a stand-in for each library
  function, a disk on which nothing fails, a root directory \<^verbatim>\<open>/srv\<close>, and
  a Store that holds the one resource \<^verbatim>\<open>logo.png\<close>.
\<close>

definition plain_world :: world where
  "plain_world =
     \<lparr>md5_hex = (\<lambda>t. ''md5('' @ t @ '')''),
      base64_decode = (\<lambda>t. if CHR ''!'' \<in> set t then Inl ''illegal base64 data'' else Inr t),
      text_parse = (\<lambda>d t. if t = [] then Inl ''template: empty'' else Inr [TextNode t]),
      json_decode = (\<lambda>b. if b = ''{}'' then Inr [] else Inr [(''name'', JString b)]),
      path_join = (\<lambda>a b. a @ ''/'' @ b),
      temp_dir = (\<lambda>root. Inr (root @ ''/001'')),
      stat_error = (\<lambda>p. None),
      read_error = (\<lambda>p. None),
      write_error = (\<lambda>p. None),
      symlink_error = (\<lambda>p q. None),
      remove_error = (\<lambda>p. None),
      run_compile = (\<lambda>t d dir c. Inr (''001.pdf'', Some ''%PDF''))\<rparr>"

definition full_disk_world :: world where
  "full_disk_world = plain_world\<lparr>write_error := (\<lambda>p. Some ''no space left on device'')\<rparr>"

definition logo_store :: "string \<Rightarrow> fetch_result" where
  "logo_store uid = (if uid = ''logo.png'' then Fetched (Bytes ''PNG'') else NotFoundError)"

definition local_server :: server where
  "local_server = \<lparr>rootDir = ''/srv'', cmd = ''pdflatex'', db = None, tCacheSize = 2, rCacheSize = 2\<rparr>"

definition store_server :: server where
  "store_server = local_server\<lparr>db := Some logo_store\<rparr>"

definition fresh_state :: state where
  "fresh_state =
     \<lparr>tmpls_t = \<lparr>cap = 2, items = []\<rparr>, tmpls_locked = False,
      rscs_r = \<lparr>cap = 2, items = []\<rparr>, rscs_locked = False,
      disk = Map.empty, dirs = [''/srv''], links = [], objs = [], events = []\<rparr>"

text \<open>The state of a server that has served \<^verbatim>\<open>logo.png\<close> before: the file is
  on disk under the root directory and its path is in the cache.\<close>

definition warm_state :: state where
  "warm_state =
     fresh_state\<lparr>rscs_r := \<lparr>cap = 2, items = [(''logo.png'', ''/srv/logo.png'')]\<rparr>,
                 disk := [''/srv/logo.png'' \<mapsto> ''PNG'']\<rparr>"

definition GET :: "(string \<times> string) list \<Rightarrow> http_request" where
  "GET q = \<lparr>content_type = [], body = BodyEOF, query = q\<rparr>"

definition POST :: "body_decode \<Rightarrow> (string \<times> string) list \<Rightarrow> http_request" where
  "POST b q = \<lparr>content_type = ''application/json'', body = b, query = q\<rparr>"

definition hello :: request where
  "hello = \<lparr>Template = ''Hello'', Details = [(''name'', JString ''World'')],
             Resources = [], Delimiters = None\<rparr>"

definition job0 :: job where
  "job0 = \<lparr>tmpl = None, details = [], dir = ''/srv/001''\<rparr>"

text \<open>A disk that holds a template file named \<^verbatim>\<open>welcome\<close> under the root
  directory.\<close>

definition welcome_state :: state where
  "welcome_state = fresh_state\<lparr>disk := [''/srv/welcome'' \<mapsto> ''Hello #!name!#'']\<rparr>"

text \<open>Two delimiter pairs whose concatenations agree.\<close>

definition angle_delims :: delimiters where
  "angle_delims = \<lparr>Left = ''<'', Right = ''<>''\<rparr>"

definition double_angle_delims :: delimiters where
  "double_angle_delims = \<lparr>Left = ''<<'', Right = ''>''\<rparr>"

section \<open>Properties\<close>

subsection \<open>Unfolding\<close>

lemmas deployment_defs = plain_world_def full_disk_world_def logo_store_def local_server_def
  store_server_def fresh_state_def warm_state_def welcome_state_def GET_def POST_def hello_def
  job0_def angle_delims_def double_angle_delims_def

lemmas primitive_defs = seq_def record_event_def held_def set_held_def Lock_def Unlock_def
  log_err_def http_Error_def respond_def respond_error_def present_def os_Stat_def
  os_IsNotExist_def no_such_file_def os_ReadFile_def os_WriteFile_def os_Symlink_def
  os_TempDir_def os_RemoveAll_def content_of_def toDisk_def store_Fetch_def template_Parse_def
  deref_def lru_Get_def lru_Add_def query_Get_def query_values_def

lemmas block_defs = check_delimiters_def cid_def inline_template_def json_body_def
  template_not_found_def template_to_disk_def url_template_def resource_not_found_def
  resource_path_def details_not_found_def decode_fetched_def details_to_disk_def
  url_details_def compile_and_send_def default_delims_def handler_body_def remove_workDir_def
  handler_def

lemmas case_congs = option.case_cong sum.case_cong prod.case_cong fetch_result.case_cong
  stat_result.case_cong store_data.case_cong body_decode.case_cong if_cong

subsection \<open>The cache key of an inline template\<close>

lemma cid_eq_iff:
  "cid w c d1 = cid w c d2 \<longleftrightarrow> Left d1 @ Right d1 = Left d2 @ Right d2"
  by (simp add: cid_def)

text \<open>
  C2.  The claim: for every template content and every two distinct
  delimiter pairs the cache keys differ, so that the same content under
  different delimiters gives two cache entries and two parsed templates.
  The key is the hash followed by the two delimiters with nothing between
  them, so two pairs with the same concatenation share a key.  Evaluated:
  for every hash function and content the pairs \<^verbatim>\<open>("<", "<>")\<close> and
  \<^verbatim>\<open>("<<", ">")\<close> get one key; and after a request with the first pair, a
  request with the same template and the second pair is served from the
  cache: one entry, one parse, one template object, and that one carries
  the first pair.
\<close>

theorem cid_collision:
  "angle_delims \<noteq> double_angle_delims
   \<and> cid w c angle_delims = cid w c double_angle_delims
   \<and> (let s1 = snd (handler plain_world local_server
                     (POST (Decoded (hello\<lparr>Delimiters := Some angle_delims\<rparr>)) []) fresh_state);
           s2 = snd (handler plain_world local_server
                     (POST (Decoded (hello\<lparr>Delimiters := Some double_angle_delims\<rparr>)) []) s1)
       in length (items (tmpls_t s2)) = 1
          \<and> map tdelims (objs s2) = [angle_delims]
          \<and> filter (\<lambda>e. case e of Parse _ \<Rightarrow> True | _ \<Rightarrow> False) (events s2)
              = [Parse ''md5(Hello)<<>''])"
  by (simp add: deployment_defs primitive_defs block_defs Let_def)

subsection \<open>The path of a resource\<close>

lemma stat_of_empty_path: "os_IsNotExist (os_Stat w s [])"
  by (simp add: os_IsNotExist_def os_Stat_def)

text \<open>Whatever the cache and the disk hold, a pass of the loop that gets the
  mutex calls the Store when there is one; when it yields a path, it is the
  path just written.\<close>

lemma resource_always_fetched:
  assumes "\<not> rscs_locked s" and "db srv = Some fetch"
  shows "case resource_path w srv rscID s of
           Inl (e, s') \<Rightarrow> (\<exists>es. events s' = events s @ Fetch rscID # es)
         | Inr (p, s') \<Rightarrow>
             p = path_join w (rootDir srv) rscID
             \<and> events s' = events s @ [Fetch rscID, ToDisk p]"
  using assms
  by (auto simp: resource_path_def stat_of_empty_path seq_def Lock_def Unlock_def held_def
      set_held_def Let_def http_Error_def log_err_def record_event_def store_Fetch_def
      toDisk_def os_WriteFile_def
      split: prod.splits fetch_result.splits option.splits sum.splits)

text \<open>
  C1.  The claim: a resource is looked up in the cache, then on local disk,
  and fetched from the Store only if it is in neither; a path that is
  cached or on disk is reused without a fetch.  Line 241 tests
  \<^verbatim>\<open>os.Stat(rscPath)\<close> while \<^verbatim>\<open>rscPath\<close> is still empty, so the test
  always sends the loop to the Store and the branch of line 274 that reuses
  the cached path is never taken.  Evaluated on a server that holds
  \<^verbatim>\<open>logo.png\<close> both in the cache and on disk: with a Store, the resource
  is fetched and written again; with no Store, the request is refused as
  not found.
\<close>

theorem cached_resource_fetched_again:
  "map_of (items (rscs_r warm_state)) ''logo.png'' = Some ''/srv/logo.png''
   \<and> disk warm_state ''/srv/logo.png'' = Some ''PNG''
   \<and> (case resource_path plain_world store_server ''logo.png'' warm_state of
         Inl _ \<Rightarrow> [] | Inr (p, s') \<Rightarrow> events s')
       = [Fetch ''logo.png'', ToDisk ''/srv/logo.png'']
   \<and> (case resource_path plain_world local_server ''logo.png'' warm_state of
         Inl (e, s') \<Rightarrow> Some e | Inr _ \<Rightarrow> None)
       = Some (Done 400 (Text ''resource with id logo.png not found''))"
  by (simp add: deployment_defs primitive_defs block_defs Let_def)

text \<open>
  C10.  The claim: on every exit path of the resource loop the mutex of the
  resource-path cache is released exactly once before the handler returns,
  also where writing the fetched resource to disk fails, and no other
  mutex is released without having been acquired.  On that path line 267
  calls \<^verbatim>\<open>tmpls.Unlock()\<close>: the mutex of the template cache, which the
  handler does not hold there.  Evaluated with a Store that has the
  resource and a disk that is full: the call ends in the fatal error of
  unlocking an unlocked mutex, and the mutex of the resource-path cache is
  still held.  And a pass of the loop that starts while the mutex of the
  template cache is held, by another request, releases that mutex and
  returns with its own still held.
\<close>

theorem wrong_mutex_released:
  "(case handler full_disk_world store_server
           (POST (Decoded hello) [(''rsc'', ''logo.png'')]) fresh_state of
      (e, s') \<Rightarrow> (e, rscs_locked s', tmpls_locked s'))
   = (Fatal ''sync: unlock of unlocked mutex'', True, False)
   \<and> (case resource_path full_disk_world store_server ''logo.png''
              (fresh_state\<lparr>tmpls_locked := True\<rparr>) of
        Inl (e, s') \<Rightarrow> Some (e, rscs_locked s', tmpls_locked s') | Inr _ \<Rightarrow> None)
     = Some (Done 500 (Text ''no space left on device''), True, False)"
  by (simp add: deployment_defs primitive_defs block_defs Let_def)

subsection \<open>Identifiers that are not found\<close>

text \<open>
  C3.  The claim: when a template, resource or details identifier is in
  neither the local disk nor the Store, or no Store is configured, the
  handler answers with a client-error status.  The handler does so for a
  template or resource without a Store (lines 174 and 245, status 400);
  where the Store reports \<^verbatim>\<open>NotFoundError\<close> it sends the same message
  under status 500 (lines 182 and 254), and for details it sends 500 in
  both cases (lines 293 and 303).  Evaluated: a template and a resource the
  Store does not have, and details without a Store.
\<close>

theorem not_found_answered_500:
  "fst (handler plain_world store_server (GET [(''tmpl'', ''welcome'')]) fresh_state)
     = Done 500 (Text ''template with id welcome#!!# not found'')
   \<and> fst (handler plain_world store_server
            (POST (Decoded hello) [(''rsc'', ''missing.png'')]) fresh_state)
     = Done 500 (Text ''resource with id missing.png not found'')
   \<and> fst (handler plain_world local_server
            (POST (Decoded (hello\<lparr>Details := []\<rparr>)) [(''dtls'', ''invoice'')]) fresh_state)
     = Done 500 (ErrorResponse ''details json with id invoice not found'' [])
   \<and> \<not> client_error (Done 500 p)"
  by (simp add: deployment_defs primitive_defs block_defs client_error_def Let_def)

text \<open>
  C5.  The claim: for a template named in the URL, the file consulted and
  written under the root directory is named by the identifier the caller
  gave, and the Store is queried by that same identifier.  Line 161
  appends the delimiters to \<^verbatim>\<open>tmplID\<close> to form the cache key, and lines
  167 and 177 then use the changed variable as file name and as Store key.
  Evaluated with the default delimiters: a template file \<^verbatim>\<open>welcome\<close> that
  is on disk under the root directory is not found, and the Store is asked
  for \<^verbatim>\<open>welcome#!!#\<close>.
\<close>

theorem template_file_named_with_delimiters:
  "disk welcome_state (path_join plain_world (rootDir local_server) ''welcome'') = Some ''Hello #!name!#''
   \<and> fst (handler plain_world local_server (GET [(''tmpl'', ''welcome'')]) welcome_state)
     = Done 400 (Text ''template with id welcome#!!# not found'')
   \<and> events (snd (handler plain_world store_server (GET [(''tmpl'', ''welcome'')]) welcome_state))
     = [InfoLog ''created new temp directory: /srv/001'', Fetch ''welcome#!!#'',
        RemoveAll ''/srv/001'']"
  by (simp add: deployment_defs primitive_defs block_defs Let_def)

subsection \<open>The cache\<close>

lemma map_of_filter_other:
  "k' \<noteq> k \<Longrightarrow> map_of (filter (\<lambda>e. fst e \<noteq> k) xs) k' = map_of xs k'"
  by (induction xs) auto

lemma map_of_move_front:
  assumes "map_of xs k = Some v"
  shows "(map_of (filter (\<lambda>e. fst e \<noteq> k) xs))(k \<mapsto> v) = map_of xs"
proof
  fix k'
  show "((map_of (filter (\<lambda>e. fst e \<noteq> k) xs))(k \<mapsto> v)) k' = map_of xs k'"
    using assms by (cases "k' = k") (simp_all add: map_of_filter_other)
qed

lemma lru_Get_miss: "map_of (items c) k = None \<Longrightarrow> lru_Get c k = (None, c)"
  by (simp add: lru_Get_def)

lemma lru_Get_hit:
  "map_of (items c) k = Some v \<Longrightarrow>
   lru_Get c k = (Some v, c\<lparr>items := (k, v) # filter (\<lambda>e. fst e \<noteq> k) (items c)\<rparr>)"
  by (simp add: lru_Get_def)

text \<open>A lookup inserts and removes nothing: it only moves the entry it finds
  to the front.\<close>

lemma lru_Get_entries:
  assumes "lru_Get c k = (r', c')"
  shows "set (items c') \<subseteq> set (items c) \<and> map_of (items c') = map_of (items c)
     \<and> cap c' = cap c \<and> r' = map_of (items c) k"
proof (cases "map_of (items c) k")
  case None
  with assms show ?thesis by (simp add: lru_Get_miss)
next
  case (Some v)
  have mem: "(k, v) \<in> set (items c)" using Some by (rule map_of_SomeD)
  have r: "r' = Some v"
    and c: "c' = c\<lparr>items := (k, v) # filter (\<lambda>e. fst e \<noteq> k) (items c)\<rparr>"
    using assms by (simp_all add: lru_Get_hit [OF Some])
  have "map_of (items c') = map_of (items c)"
    unfolding c using map_of_move_front [OF Some] by simp
  moreover have "set (items c') \<subseteq> set (items c)"
    unfolding c using mem by auto
  ultimately show ?thesis using r c Some by simp
qed

text \<open>A cache built by \<open>lru_New\<close> has room for at least one entry, so an
  entry just added is found.\<close>

lemma lru_Add_lookup: "0 < cap c \<Longrightarrow> map_of (items (lru_Add c k v)) k = Some v"
  by (cases "items c") (auto simp: lru_Add_def Let_def split: option.splits)

lemma lru_Add_cap: "cap (lru_Add c k v) = cap c"
  by (simp add: lru_Add_def Let_def split: option.splits)

lemma lru_New_cap: "lru_New n = Inr c \<Longrightarrow> 0 < cap c"
  by (auto simp: lru_New_def split: if_splits)

subsection \<open>Resolving an inline template\<close>

lemma inline_template_cached:
  assumes "0 < cap (tmpls_t s)" and "inline_template w req d j s = Inr (j1, s1)"
  shows "\<exists>t. tmpl j1 = Some t \<and> map_of (items (tmpls_t s1)) (cid w (Template req) d) = Some t"
proof (cases "map_of (items (tmpls_t s)) (cid w (Template req) d)")
  case None
  with assms show ?thesis
    by (auto simp: inline_template_def seq_def Lock_def Unlock_def held_def set_held_def Let_def
        http_Error_def log_err_def record_event_def template_Parse_def lru_Add_lookup lru_Get_miss
        split: if_splits sum.splits)
next
  case (Some t)
  with assms show ?thesis
    by (auto simp: inline_template_def seq_def Lock_def Unlock_def held_def set_held_def Let_def
        lru_Get_hit map_of_move_front split: if_splits)
qed

lemma inline_template_parsed:
  assumes "0 < cap (tmpls_t s)" and "inline_template w req d j s = Inr (j1, s1)"
    and "map_of (items (tmpls_t s)) (cid w (Template req) d) = None"
  shows "\<exists>tBytes nodes.
     base64_decode w (Template req) = Inr tBytes \<and> text_parse w d tBytes = Inr nodes
     \<and> tmpl j1 = Some (length (objs s))
     \<and> objs s1 = objs s @ [\<lparr>tname = cid w (Template req) d, tdelims = d, tree = nodes\<rparr>]
     \<and> events s1 = events s @ [Parse (cid w (Template req) d)]"
  using assms
  by (auto simp: inline_template_def seq_def Lock_def Unlock_def held_def set_held_def Let_def
      http_Error_def log_err_def record_event_def template_Parse_def lru_Get_miss
      split: if_splits sum.splits)

lemma inline_template_hit:
  assumes "map_of (items (tmpls_t s)) (cid w (Template req) d) = Some t"
    and "\<not> tmpls_locked s"
  shows "\<exists>s2. inline_template w req d j s = Inr (j\<lparr>tmpl := Some t\<rparr>, s2)
     \<and> objs s2 = objs s \<and> events s2 = events s
     \<and> map_of (items (tmpls_t s2)) = map_of (items (tmpls_t s))"
  using assms
  by (auto simp: inline_template_def seq_def Lock_def Unlock_def held_def set_held_def Let_def
      lru_Get_hit map_of_move_front)

text \<open>The block reads nothing of the body but its template text.\<close>

lemma inline_template_same_text:
  "Template req' = Template req \<Longrightarrow>
   inline_template w req' d j s = inline_template w req d j s"
  unfolding inline_template_def by (erule subst) (rule refl)

text \<open>
  C4.  Resolving the same template content under the same delimiter pair a
  second time, with the entry still in the cache, returns the identical
  cached parsed template object and parses nothing.  Here \<open>s1\<close> is the state
  after a first resolution, which returned the pointer \<open>tmpl j1\<close>; \<open>req'\<close>
  is any body with the same template text; and \<open>s'\<close> is any later state in
  which the cache still maps the key as \<open>s1\<close> does and the mutex is free.
  The first resolution left its result in the cache: the key is mapped to
  the pointer it returned.  The second resolution returns that pointer,
  which is what the cache holds for the key before and after it; it
  allocates no template object and records no event, so no \<open>Parse\<close>.  And
  the cached object is a parsed one: when the first resolution did not
  find the key, it decoded and parsed the text once, and the pointer is to
  the object holding the parse result under the key and the delimiters.
  The capacity of a cache is positive by construction (\<open>lru_New_cap\<close>).
\<close>

theorem same_template_resolved_once:
  assumes "0 < cap (tmpls_t s)"
    and "inline_template w req d j s = Inr (j1, s1)"
    and "Template req' = Template req"
    and "map_of (items (tmpls_t s')) (cid w (Template req) d)
           = map_of (items (tmpls_t s1)) (cid w (Template req) d)"
    and "\<not> tmpls_locked s'"
  shows "\<exists>s2. inline_template w req' d j' s' = Inr (j'\<lparr>tmpl := tmpl j1\<rparr>, s2)
     \<and> tmpl j1 \<noteq> None \<and> objs s2 = objs s' \<and> events s2 = events s'
     \<and> map_of (items (tmpls_t s1)) (cid w (Template req) d) = tmpl j1
     \<and> map_of (items (tmpls_t s')) (cid w (Template req) d) = tmpl j1
     \<and> map_of (items (tmpls_t s2)) (cid w (Template req) d) = tmpl j1
     \<and> (map_of (items (tmpls_t s)) (cid w (Template req) d) = None \<longrightarrow>
          (\<exists>tBytes nodes.
             base64_decode w (Template req) = Inr tBytes \<and> text_parse w d tBytes = Inr nodes
             \<and> tmpl j1 = Some (length (objs s))
             \<and> deref s1 (length (objs s))
                 = Some \<lparr>tname = cid w (Template req) d, tdelims = d, tree = nodes\<rparr>
             \<and> events s1 = events s @ [Parse (cid w (Template req) d)]))"
proof -
  let ?k = "cid w (Template req) d"
  obtain t where t: "tmpl j1 = Some t" and c1: "map_of (items (tmpls_t s1)) ?k = Some t"
    using inline_template_cached [OF assms(1,2)] by blast
  have c': "map_of (items (tmpls_t s')) ?k = Some t"
    using assms(4) c1 by simp
  obtain s2 where r: "inline_template w req d j' s' = Inr (j'\<lparr>tmpl := Some t\<rparr>, s2)"
    and o: "objs s2 = objs s'" and e: "events s2 = events s'"
    and c2: "map_of (items (tmpls_t s2)) = map_of (items (tmpls_t s'))"
    using inline_template_hit [OF c' assms(5), of j'] by blast
  have first: "map_of (items (tmpls_t s)) ?k = None \<longrightarrow>
          (\<exists>tBytes nodes.
             base64_decode w (Template req) = Inr tBytes \<and> text_parse w d tBytes = Inr nodes
             \<and> tmpl j1 = Some (length (objs s))
             \<and> deref s1 (length (objs s))
                 = Some \<lparr>tname = ?k, tdelims = d, tree = nodes\<rparr>
             \<and> events s1 = events s @ [Parse ?k])"
  proof
    assume "map_of (items (tmpls_t s)) ?k = None"
    from inline_template_parsed [OF assms(1,2) this]
    show "\<exists>tBytes nodes.
             base64_decode w (Template req) = Inr tBytes \<and> text_parse w d tBytes = Inr nodes
             \<and> tmpl j1 = Some (length (objs s))
             \<and> deref s1 (length (objs s))
                 = Some \<lparr>tname = ?k, tdelims = d, tree = nodes\<rparr>
             \<and> events s1 = events s @ [Parse ?k]"
      by (auto simp: deref_def)
  qed
  show ?thesis
    using r o e c1 c' c2 t first by (simp add: inline_template_same_text [OF assms(3)])
qed

theorem same_template_resolved_once_witness:
  "\<exists>j1 s1 s2.
     0 < cap (tmpls_t fresh_state)
     \<and> map_of (items (tmpls_t fresh_state)) (cid plain_world (Template hello) default_delims)
         = None
     \<and> inline_template plain_world hello default_delims job0 fresh_state = Inr (j1, s1)
     \<and> \<not> tmpls_locked s1
     \<and> inline_template plain_world (hello\<lparr>Details := []\<rparr>) default_delims job0 s1
         = Inr (job0\<lparr>tmpl := tmpl j1\<rparr>, s2)
     \<and> tmpl j1 = Some 0 \<and> objs s2 = objs s1 \<and> events s2 = events s1
     \<and> map_of (items (tmpls_t s1)) (cid plain_world (Template hello) default_delims) = Some 0
     \<and> map_of (items (tmpls_t s2)) (cid plain_world (Template hello) default_delims) = Some 0
     \<and> deref s1 0 = Some \<lparr>tname = ''md5(Hello)#!!#'', tdelims = default_delims,
                            tree = [TextNode ''Hello'']\<rparr>
     \<and> events s1 = [Parse ''md5(Hello)#!!#'']"
proof -
  have cap: "0 < cap (tmpls_t fresh_state)"
    by (simp add: fresh_state_def)
  have miss: "map_of (items (tmpls_t fresh_state))
      (cid plain_world (Template hello) default_delims) = None"
    by (simp add: fresh_state_def)
  have same: "Template (hello\<lparr>Details := []\<rparr>) = Template hello"
    by simp
  have k: "cid plain_world (Template hello) default_delims = ''md5(Hello)#!!#''"
    by (simp add: cid_def plain_world_def hello_def default_delims_def)
  have p: "base64_decode plain_world (Template hello) = Inr ''Hello''"
    "text_parse plain_world default_delims ''Hello'' = Inr [TextNode ''Hello'']"
    "objs fresh_state = []" "events fresh_state = []"
    by (simp_all add: plain_world_def hello_def fresh_state_def)
  obtain j1 s1 where
    first: "inline_template plain_world hello default_delims job0 fresh_state = Inr (j1, s1)"
    and free: "\<not> tmpls_locked s1"
    by (simp add: deployment_defs primitive_defs block_defs Let_def)
  from same_template_resolved_once [OF cap first same refl free, of job0]
  show ?thesis using cap miss first free k p by auto
qed

subsection \<open>Failed resolutions and the caches\<close>

lemma inline_template_failed:
  "inline_template w req d j s = Inl (e, s') \<Longrightarrow>
   tmpls_t s' = tmpls_t s \<and> rscs_r s' = rscs_r s"
  by (auto simp: inline_template_def seq_def Lock_def Unlock_def held_def set_held_def Let_def
      http_Error_def log_err_def record_event_def lru_Get_def template_Parse_def
      split: if_splits option.splits sum.splits prod.splits)

lemma template_to_disk_failed:
  "template_to_disk w srv tmplID tmplPath s = Inl (e, s') \<Longrightarrow>
   tmpls_t s' = tmpls_t s \<and> rscs_r s' = rscs_r s"
  by (auto simp: template_to_disk_def seq_def Unlock_def held_def set_held_def
      http_Error_def respond_def log_err_def record_event_def store_Fetch_def toDisk_def
      os_WriteFile_def
      split: if_splits option.splits sum.splits prod.splits stat_result.splits
        fetch_result.splits)

lemma template_to_disk_done:
  "template_to_disk w srv tmplID tmplPath s = Inr s' \<Longrightarrow>
   tmpls_t s' = tmpls_t s \<and> rscs_r s' = rscs_r s \<and> tmpls_locked s' = tmpls_locked s"
  by (auto simp: template_to_disk_def seq_def Unlock_def held_def set_held_def
      http_Error_def respond_def log_err_def record_event_def store_Fetch_def toDisk_def
      os_WriteFile_def
      split: if_splits option.splits sum.splits prod.splits stat_result.splits
        fetch_result.splits)

lemma url_template_failed:
  "url_template w srv r d j s = Inl (e, s') \<Longrightarrow>
   tmpls_t s' = tmpls_t s \<and> rscs_r s' = rscs_r s"
  by (auto simp: url_template_def seq_def Lock_def Unlock_def held_def set_held_def Let_def
      http_Error_def log_err_def record_event_def lru_Get_def template_Parse_def
      split: if_splits option.splits sum.splits prod.splits
      dest!: template_to_disk_failed template_to_disk_done)

lemma resource_path_failed:
  "resource_path w srv rscID s = Inl (e, s') \<Longrightarrow>
   set (items (rscs_r s')) \<subseteq> set (items (rscs_r s))
   \<and> map_of (items (rscs_r s')) = map_of (items (rscs_r s))
   \<and> (rscs_r s' = rscs_r s \<or> rscs_r s' = snd (lru_Get (rscs_r s) rscID))
   \<and> tmpls_t s' = tmpls_t s"
  by (auto simp: resource_path_def seq_def Lock_def Unlock_def held_def set_held_def Let_def
      http_Error_def respond_def log_err_def record_event_def store_Fetch_def toDisk_def
      os_WriteFile_def
      split: if_splits option.splits sum.splits prod.splits fetch_result.splits
      dest!: lru_Get_entries)

text \<open>
  C8.  Whenever the resolution of a template or of a resource fails, on
  whatever path, no entry is inserted into the corresponding cache.  For
  each of the three resolutions (inline template, template named in the
  URL, one resource of the loop) and every way it can end without a result:
  the template cache is the same cache afterwards; the resource-path cache
  holds no entry it did not hold before and maps every key as before, being
  either the same cache or the cache as the lookup of line 239 left it
  (a lookup that finds the key marks its entry as most recently used).
\<close>

theorem failed_resolution_adds_no_entry:
  "(inline_template w req d j s = Inl (e, s') \<longrightarrow>
      tmpls_t s' = tmpls_t s \<and> rscs_r s' = rscs_r s)
   \<and> (url_template w srv r d j s = Inl (e, s') \<longrightarrow>
      tmpls_t s' = tmpls_t s \<and> rscs_r s' = rscs_r s)
   \<and> (resource_path w srv rscID s = Inl (e, s') \<longrightarrow>
      tmpls_t s' = tmpls_t s
      \<and> set (items (rscs_r s')) \<subseteq> set (items (rscs_r s))
      \<and> map_of (items (rscs_r s')) = map_of (items (rscs_r s))
      \<and> (rscs_r s' = rscs_r s \<or> rscs_r s' = snd (lru_Get (rscs_r s) rscID)))"
  using inline_template_failed [of w req d j s e s']
    url_template_failed [of w srv r d j s e s']
    resource_path_failed [of w srv rscID s e s']
  by blast

theorem failed_resolution_adds_no_entry_witness:
  "\<exists>s1 s2 s3.
     inline_template plain_world (hello\<lparr>Template := ''He!!o''\<rparr>) default_delims job0 fresh_state
       = Inl (Done 500 (Text ''illegal base64 data''), s1)
     \<and> tmpls_t s1 = tmpls_t fresh_state \<and> rscs_r s1 = rscs_r fresh_state
     \<and> url_template plain_world local_server (GET [(''tmpl'', ''welcome'')]) default_delims job0
         fresh_state
       = Inl (Done 400 (Text ''template with id welcome#!!# not found''), s2)
     \<and> tmpls_t s2 = tmpls_t fresh_state \<and> rscs_r s2 = rscs_r fresh_state
     \<and> resource_path plain_world store_server ''missing.png'' warm_state
       = Inl (Done 500 (Text ''resource with id missing.png not found''), s3)
     \<and> tmpls_t s3 = tmpls_t warm_state
     \<and> map_of (items (rscs_r s3)) = map_of (items (rscs_r warm_state))"
proof -
  obtain s1 where a: "inline_template plain_world (hello\<lparr>Template := ''He!!o''\<rparr>) default_delims
      job0 fresh_state = Inl (Done 500 (Text ''illegal base64 data''), s1)"
    by (simp add: deployment_defs primitive_defs block_defs Let_def)
  obtain s2 where b: "url_template plain_world local_server (GET [(''tmpl'', ''welcome'')])
      default_delims job0 fresh_state
      = Inl (Done 400 (Text ''template with id welcome#!!# not found''), s2)"
    by (simp add: deployment_defs primitive_defs block_defs Let_def)
  obtain s3 where c: "resource_path plain_world store_server ''missing.png'' warm_state
      = Inl (Done 500 (Text ''resource with id missing.png not found''), s3)"
    by (simp add: deployment_defs primitive_defs block_defs Let_def)
  from a failed_resolution_adds_no_entry
    [where w = plain_world and req = "hello\<lparr>Template := ''He!!o''\<rparr>" and d = default_delims
       and j = job0 and s = fresh_state and e = "Done 500 (Text ''illegal base64 data'')"
       and s' = s1]
  have a': "tmpls_t s1 = tmpls_t fresh_state \<and> rscs_r s1 = rscs_r fresh_state" by blast
  from b failed_resolution_adds_no_entry
    [where w = plain_world and srv = local_server and r = "GET [(''tmpl'', ''welcome'')]"
       and d = default_delims and j = job0 and s = fresh_state
       and e = "Done 400 (Text ''template with id welcome#!!# not found'')" and s' = s2]
  have b': "tmpls_t s2 = tmpls_t fresh_state \<and> rscs_r s2 = rscs_r fresh_state" by blast
  from c failed_resolution_adds_no_entry
    [where w = plain_world and srv = store_server and rscID = "''missing.png''"
       and s = warm_state
       and e = "Done 500 (Text ''resource with id missing.png not found'')" and s' = s3]
  have c': "tmpls_t s3 = tmpls_t warm_state
      \<and> map_of (items (rscs_r s3)) = map_of (items (rscs_r warm_state))" by blast
  from a b c a' b' c' show ?thesis by blast
qed

subsection \<open>From the blocks to the handler\<close>

lemma entered_fields [simp]:
  "tmpls_t (entered d s) = tmpls_t s" "tmpls_locked (entered d s) = tmpls_locked s"
  "rscs_r (entered d s) = rscs_r s" "rscs_locked (entered d s) = rscs_locked s"
  "objs (entered d s) = objs s" "disk (entered d s) = disk s" "links (entered d s) = links s"
  "dirs (entered d s) = d # dirs s"
  "events (entered d s) = events s @ [InfoLog (''created new temp directory: '' @ d)]"
  by (simp_all add: entered_def record_event_def)

lemma handler_entered:
  assumes "temp_dir w (rootDir srv) = Inr workDir"
  shows "handler w srv r s =
     (case handler_body w srv r workDir (entered workDir s) of
        (Done code p, s') \<Rightarrow> (Done code p, remove_workDir w workDir s')
      | (Fatal msg, s') \<Rightarrow> (Fatal msg, s')
      | (Blocked, s') \<Rightarrow> (Blocked, s'))"
  using assms by (simp add: handler_def os_TempDir_def entered_def)

lemma fst_handler:
  assumes "temp_dir w (rootDir srv) = Inr workDir"
  shows "fst (handler w srv r s) = fst (handler_body w srv r workDir (entered workDir s))"
  by (simp add: handler_entered [OF assms] split: prod.splits exit.splits)

lemma handler_body_json_exit:
  "json_body w r workDir default_delims \<lparr>tmpl = None, details = [], dir = workDir\<rparr> s = Inl x
   \<Longrightarrow> handler_body w srv r workDir s = x"
  by (simp add: handler_body_def seq_def Let_def)

lemma check_delimiters_eq:
  "check_delimiters req default_delims s =
     (if delims_complete req then Inr (delims_of req, s)
      else Inl (Done 400 (Text ''only received one delimiter; need none or both''), s))"
  by (auto simp: check_delimiters_def delims_complete_def delims_of_def respond_def
      split: option.splits)

lemma write_resources_ok:
  "resources_ok w workDir rs \<Longrightarrow> \<exists>s'. write_resources w workDir rs s = Inr s'"
proof (induction rs arbitrary: s)
  case Nil
  show ?case by simp
next
  case (Cons x rs)
  obtain name data where x: "x = (name, data)" by (cases x)
  from Cons.prems obtain bs where
    dec: "base64_decode w data = Inr bs" and
    wr: "write_error w (path_join w workDir name) = None" and
    rest: "resources_ok w workDir rs"
    by (auto simp: resources_ok_def x split: sum.splits)
  show ?case
    using Cons.IH [OF rest] by (simp add: x dec wr os_WriteFile_def Let_def)
qed

lemma write_resources_bad:
  assumes "resources_ok w workDir pre" and "base64_decode w dat = Inl err"
  shows "\<exists>s'. write_resources w workDir (pre @ (n, dat) # post) s = Inl (Done 500 (Text err), s')"
  using assms(1)
proof (induction pre arbitrary: s)
  case Nil
  show ?case by (simp add: assms(2) http_Error_def Let_def)
next
  case (Cons x pre)
  obtain name data where x: "x = (name, data)" by (cases x)
  from Cons.prems obtain bs where
    dec: "base64_decode w data = Inr bs" and
    wr: "write_error w (path_join w workDir name) = None" and
    rest: "resources_ok w workDir pre"
    by (auto simp: resources_ok_def x split: sum.splits)
  show ?case
    using Cons.IH [OF rest] by (simp add: x dec wr os_WriteFile_def Let_def)
qed

lemma url_template_none:
  "tmpl j = None \<Longrightarrow> query_Get (query r) ''tmpl'' = [] \<Longrightarrow>
   url_template w srv r d j s
     = Inl (Done 400 (Text ''no template provided''), log_err ''no template provided'' s)"
  by (simp add: url_template_def http_Error_def)

subsection \<open>Bad requests\<close>

lemma one_delimiter_400:
  assumes "temp_dir w (rootDir srv) = Inr workDir"
    and "content_type r = ''application/json''" and "body r = Decoded req"
    and "Delimiters req = Some d" and "Left d = [] \<or> Right d = []"
  shows "fst (handler w srv r s)
     = Done 400 (Text ''only received one delimiter; need none or both'')"
proof -
  have "\<not> delims_complete req"
    using assms(4,5) by (auto simp: delims_complete_def)
  then have "json_body w r workDir default_delims \<lparr>tmpl = None, details = [], dir = workDir\<rparr>
       (entered workDir s)
     = Inl (Done 400 (Text ''only received one delimiter; need none or both''),
            entered workDir s)"
    using assms(2,3) by (simp add: json_body_def check_delimiters_eq seq_def)
  then show ?thesis
    by (simp add: fst_handler [OF assms(1)] handler_body_json_exit)
qed

lemma no_template_400:
  assumes td: "temp_dir w (rootDir srv) = Inr workDir"
    and q: "query_Get (query r) ''tmpl'' = []"
    and b: "content_type r \<noteq> ''application/json'' \<or> body r = BodyEOF \<or>
       (body r = Decoded req \<and> Template req = [] \<and> resources_ok w workDir (Resources req))"
  shows "\<exists>p. fst (handler w srv r s) = Done 400 p"
proof -
  let ?s = "entered workDir s"
  consider (plain) "content_type r \<noteq> ''application/json''"
    | (empty) "content_type r = ''application/json''" "body r = BodyEOF"
    | (decoded) "content_type r = ''application/json''" "body r = Decoded req"
        "Template req = []" "resources_ok w workDir (Resources req)"
    using b by blast
  then have "\<exists>p. fst (handler_body w srv r workDir ?s) = Done 400 p"
  proof cases
    case plain
    then show ?thesis
      by (simp add: handler_body_def json_body_def seq_def Let_def url_template_none q)
  next
    case empty
    then show ?thesis
      by (simp add: handler_body_def json_body_def seq_def Let_def respond_def)
  next
    case decoded
    obtain s' where wr: "write_resources w workDir (Resources req) ?s = Inr s'"
      using write_resources_ok [OF decoded(4)] by blast
    show ?thesis
      using decoded(1-3) wr
      by (simp add: handler_body_def json_body_def seq_def Let_def check_delimiters_eq
          url_template_none q)
  qed
  then show ?thesis by (simp add: fst_handler [OF td])
qed

text \<open>
  C7.  A request that supplies only one of the two delimiter fields is
  answered 400 with the message
  \<^verbatim>\<open>only received one delimiter; need none or both\<close>; a request from which
  no template can be resolved, neither inline in the body nor through the
  \<^verbatim>\<open>tmpl\<close> parameter, is answered 400.  Both are statements about a
  request whose working directory was created.  The first is about a JSON
  body that decodes with a delimiter pair of which a side is empty.  The
  second is about a request with no \<^verbatim>\<open>tmpl\<close> parameter and no inline
  template: no JSON body at all, an empty one, or one that decodes with an
  empty template and whose inline resources, handled before the template
  is looked for, are written without error.
\<close>

theorem bad_requests_answered_400:
  assumes "temp_dir w (rootDir srv) = Inr workDir"
  shows "(content_type r = ''application/json'' \<and> body r = Decoded req
            \<and> Delimiters req = Some d \<and> (Left d = [] \<or> Right d = [])
          \<longrightarrow> fst (handler w srv r s)
                = Done 400 (Text ''only received one delimiter; need none or both''))
     \<and> (query_Get (query r) ''tmpl'' = []
          \<and> (content_type r \<noteq> ''application/json'' \<or> body r = BodyEOF \<or>
             (body r = Decoded req \<and> Template req = []
              \<and> resources_ok w workDir (Resources req)))
          \<longrightarrow> (\<exists>p. fst (handler w srv r s) = Done 400 p))"
  using one_delimiter_400 [OF assms, of r req d s] no_template_400 [OF assms, of r req s]
  by blast

theorem bad_requests_answered_400_witness:
  "temp_dir plain_world (rootDir local_server) = Inr ''/srv/001''
   \<and> Delimiters (hello\<lparr>Delimiters := Some \<lparr>Left = ''<<'', Right = []\<rparr>\<rparr>)
       = Some \<lparr>Left = ''<<'', Right = []\<rparr>
   \<and> fst (handler plain_world local_server
           (POST (Decoded (hello\<lparr>Delimiters := Some \<lparr>Left = ''<<'', Right = []\<rparr>\<rparr>)) [])
           fresh_state)
       = Done 400 (Text ''only received one delimiter; need none or both'')
   \<and> query_Get (query (GET [(''rsc'', ''logo.png'')])) ''tmpl'' = []
   \<and> (\<exists>p. fst (handler plain_world local_server (GET [(''rsc'', ''logo.png'')]) fresh_state)
           = Done 400 p)
   \<and> resources_ok plain_world ''/srv/001'' [(''a.png'', ''QQ'')]
   \<and> (\<exists>p. fst (handler plain_world local_server
                 (POST (Decoded (hello\<lparr>Template := [], Resources := [(''a.png'', ''QQ'')]\<rparr>)) [])
                 fresh_state)
           = Done 400 p)"
proof -
  have td: "temp_dir plain_world (rootDir local_server) = Inr ''/srv/001''"
    by (simp add: plain_world_def local_server_def)
  have ok: "resources_ok plain_world ''/srv/001'' [(''a.png'', ''QQ'')]"
    by (simp add: resources_ok_def plain_world_def)
  have q: "query_Get (query (GET [(''rsc'', ''logo.png'')])) ''tmpl'' = []"
    by (simp add: query_Get_def GET_def)
  have q': "query_Get (query (POST b [])) ''tmpl'' = []" for b
    by (simp add: query_Get_def POST_def)
  from bad_requests_answered_400 [OF td,
      where r = "POST (Decoded (hello\<lparr>Delimiters := Some \<lparr>Left = ''<<'', Right = []\<rparr>\<rparr>)) []"
        and req = "hello\<lparr>Delimiters := Some \<lparr>Left = ''<<'', Right = []\<rparr>\<rparr>"
        and d = "\<lparr>Left = ''<<'', Right = []\<rparr>" and s = fresh_state]
  have a: "fst (handler plain_world local_server
           (POST (Decoded (hello\<lparr>Delimiters := Some \<lparr>Left = ''<<'', Right = []\<rparr>\<rparr>)) [])
           fresh_state)
       = Done 400 (Text ''only received one delimiter; need none or both'')"
    by (simp add: POST_def)
  from bad_requests_answered_400 [OF td,
      where r = "GET [(''rsc'', ''logo.png'')]" and s = fresh_state] q
  have b: "\<exists>p. fst (handler plain_world local_server (GET [(''rsc'', ''logo.png'')]) fresh_state)
           = Done 400 p"
    by (simp add: GET_def)
  from bad_requests_answered_400 [OF td,
      where r = "POST (Decoded (hello\<lparr>Template := [], Resources := [(''a.png'', ''QQ'')]\<rparr>)) []"
        and req = "hello\<lparr>Template := [], Resources := [(''a.png'', ''QQ'')]\<rparr>"
        and s = fresh_state] q' ok
  have c: "\<exists>p. fst (handler plain_world local_server
                 (POST (Decoded (hello\<lparr>Template := [], Resources := [(''a.png'', ''QQ'')]\<rparr>)) [])
                 fresh_state)
           = Done 400 p"
    by (simp add: POST_def)
  from td ok q a b c show ?thesis by simp
qed

subsection \<open>Decode failures\<close>

lemma inline_template_ok:
  assumes "Template req \<noteq> []" and "inline_template_resolves w req s"
  shows "\<exists>j' s'. inline_template w req (delims_of req) j s = Inr (j', s')"
proof (cases "map_of (items (tmpls_t s)) (cid w (Template req) (delims_of req))")
  case None
  with assms show ?thesis
    by (auto simp: inline_template_resolves_def inline_template_def seq_def Lock_def Unlock_def
        held_def set_held_def Let_def lru_Get_miss template_Parse_def record_event_def
        split: sum.splits)
next
  case (Some t)
  with assms show ?thesis
    by (auto simp: inline_template_resolves_def inline_template_def seq_def Lock_def Unlock_def
        held_def set_held_def Let_def lru_Get_hit)
qed

lemma inline_template_bad_base64:
  assumes "\<not> tmpls_locked s"
    and "map_of (items (tmpls_t s)) (cid w (Template req) d) = None"
    and "base64_decode w (Template req) = Inl err"
  shows "inline_template w req d j s = Inl (Done 500 (Text err), log_err err s)"
  using assms
  by (simp add: inline_template_def seq_def Lock_def Unlock_def held_def set_held_def Let_def
      lru_Get_miss http_Error_def log_err_def record_event_def)

lemma malformed_body_500:
  assumes td: "temp_dir w (rootDir srv) = Inr workDir"
    and ct: "content_type r = ''application/json''"
    and "body r = BodyError err"
  shows "fst (handler w srv r s) = Done 500 (Text err)"
proof -
  have "json_body w r workDir default_delims \<lparr>tmpl = None, details = [], dir = workDir\<rparr>
      (entered workDir s) = Inl (Done 500 (Text err), log_err err (entered workDir s))"
    using ct assms(3) by (simp add: json_body_def http_Error_def)
  then show ?thesis
    by (simp add: fst_handler [OF td] handler_body_json_exit)
qed

lemma empty_body_400:
  assumes td: "temp_dir w (rootDir srv) = Inr workDir"
    and ct: "content_type r = ''application/json''"
    and "body r = BodyEOF"
  shows "fst (handler w srv r s) = Done 400
     (Text ''request header Content-Type set to application/json; received empty body'')"
proof -
  have "json_body w r workDir default_delims \<lparr>tmpl = None, details = [], dir = workDir\<rparr>
      (entered workDir s)
    = Inl (Done 400
        (Text ''request header Content-Type set to application/json; received empty body''),
        entered workDir s)"
    using ct assms(3) by (simp add: json_body_def respond_def)
  then show ?thesis
    by (simp add: fst_handler [OF td] handler_body_json_exit)
qed

lemma malformed_template_500:
  assumes td: "temp_dir w (rootDir srv) = Inr workDir"
    and ct: "content_type r = ''application/json''"
    and b: "body r = Decoded req" and dc: "delims_complete req" and ne: "Template req \<noteq> []"
    and free: "\<not> tmpls_locked s"
    and miss: "map_of (items (tmpls_t s)) (cid w (Template req) (delims_of req)) = None"
    and bad: "base64_decode w (Template req) = Inl err"
  shows "fst (handler w srv r s) = Done 500 (Text err)"
proof -
  let ?j = "\<lparr>tmpl = None, details = [], dir = workDir\<rparr>"
  let ?s = "entered workDir s"
  have "inline_template w req (delims_of req) ?j ?s = Inl (Done 500 (Text err), log_err err ?s)"
    using free miss bad by (intro inline_template_bad_base64) simp_all
  then have "json_body w r workDir default_delims ?j ?s
      = Inl (Done 500 (Text err), log_err err ?s)"
    using ct b dc ne by (simp add: json_body_def check_delimiters_eq seq_def)
  then show ?thesis
    by (simp add: fst_handler [OF td] handler_body_json_exit)
qed

lemma malformed_resource_500:
  assumes td: "temp_dir w (rootDir srv) = Inr workDir"
    and ct: "content_type r = ''application/json''"
    and b: "body r = Decoded req" and dc: "delims_complete req"
    and tr: "inline_template_resolves w req s"
    and rs: "Resources req = pre @ (name, data) # post"
    and pre: "resources_ok w workDir pre"
    and bad: "base64_decode w data = Inl err"
  shows "fst (handler w srv r s) = Done 500 (Text err)"
proof -
  let ?j = "\<lparr>tmpl = None, details = [], dir = workDir\<rparr>"
  let ?s = "entered workDir s"
  have res: "inline_template_resolves w req ?s"
    using tr by (simp add: inline_template_resolves_def)
  obtain j' s' where tm:
    "(if Template req \<noteq> [] then inline_template w req (delims_of req) ?j ?s else Inr (?j, ?s))
       = Inr (j', s')"
    using inline_template_ok [OF _ res, of ?j] by (cases "Template req = []") auto
  obtain s'' where wr:
    "write_resources w workDir (Resources req) s' = Inl (Done 500 (Text err), s'')"
    using write_resources_bad [OF pre bad, of name post s'] rs by auto
  have "json_body w r workDir default_delims ?j ?s = Inl (Done 500 (Text err), s'')"
    using ct b dc tm wr by (simp add: json_body_def check_delimiters_eq seq_def Let_def)
  then show ?thesis
    by (simp add: fst_handler [OF td] handler_body_json_exit)
qed

text \<open>
  C6, as the claim is written: every decode failure in the request (a
  malformed JSON body, a malformed base64 template, a malformed base64
  resource value) is reported with a client-error status.  It fails:
  each of the three is answered with status 500.
\<close>

theorem decode_failure_not_client_error:
  "fst (handler plain_world local_server (POST (BodyError ''invalid character'') []) fresh_state)
     = Done 500 (Text ''invalid character'')
   \<and> \<not> client_error
         (fst (handler plain_world local_server (POST (BodyError ''invalid character'') [])
                 fresh_state))
   \<and> fst (handler plain_world local_server (POST (Decoded (hello\<lparr>Template := ''He!!o''\<rparr>)) [])
            fresh_state)
     = Done 500 (Text ''illegal base64 data'')
   \<and> fst (handler plain_world local_server
            (POST (Decoded (hello\<lparr>Resources := [(''a.png'', ''!'')]\<rparr>)) []) fresh_state)
     = Done 500 (Text ''illegal base64 data'')"
  by (simp add: deployment_defs primitive_defs block_defs client_error_def Let_def)

text \<open>
  C6, amended: under Content-Type \<^verbatim>\<open>application/json\<close> and with the
  working directory created, a body that fails to decode with an error
  other than end of input (lines 89-92), an inline template that is not in
  the cache and is not valid base64 (lines 113-118), and an inline resource
  that is not valid base64 (lines 143-148) are each answered with status
  500 and the decoder's message; an empty body (lines 86-88) is answered
  with status 400.  For the template the mutex of the cache is free; the
  resource is reached when the template step before it succeeds and the
  resources before it are written.
\<close>

theorem decode_failures_answered_500:
  assumes "temp_dir w (rootDir srv) = Inr workDir"
    and "content_type r = ''application/json''"
  shows "(body r = BodyError err \<longrightarrow> fst (handler w srv r s) = Done 500 (Text err))
     \<and> (body r = Decoded req \<and> delims_complete req \<and> Template req \<noteq> []
          \<and> \<not> tmpls_locked s
          \<and> map_of (items (tmpls_t s)) (cid w (Template req) (delims_of req)) = None
          \<and> base64_decode w (Template req) = Inl err
        \<longrightarrow> fst (handler w srv r s) = Done 500 (Text err))
     \<and> (body r = Decoded req \<and> delims_complete req \<and> inline_template_resolves w req s
          \<and> Resources req = pre @ (name, data) # post \<and> resources_ok w workDir pre
          \<and> base64_decode w data = Inl err
        \<longrightarrow> fst (handler w srv r s) = Done 500 (Text err))
     \<and> (body r = BodyEOF \<longrightarrow> fst (handler w srv r s) = Done 400
          (Text ''request header Content-Type set to application/json; received empty body''))"
  using malformed_body_500 [OF assms, of err s]
    malformed_template_500 [OF assms, of req s err]
    malformed_resource_500 [OF assms, of req s pre name data post err]
    empty_body_400 [OF assms, of s]
  by blast

theorem decode_failures_answered_500_witness:
  "temp_dir plain_world (rootDir store_server) = Inr ''/srv/001''
   \<and> fst (handler plain_world store_server (POST (BodyError ''unexpected EOF'') []) fresh_state)
       = Done 500 (Text ''unexpected EOF'')
   \<and> base64_decode plain_world (Template (hello\<lparr>Template := ''He!!o''\<rparr>))
       = Inl ''illegal base64 data''
   \<and> fst (handler plain_world store_server (POST (Decoded (hello\<lparr>Template := ''He!!o''\<rparr>)) [])
            fresh_state)
       = Done 500 (Text ''illegal base64 data'')
   \<and> inline_template_resolves plain_world
        (hello\<lparr>Resources := [(''a.png'', ''QQ''), (''b.png'', ''!'')]\<rparr>) fresh_state
   \<and> resources_ok plain_world ''/srv/001'' [(''a.png'', ''QQ'')]
   \<and> fst (handler plain_world store_server
            (POST (Decoded (hello\<lparr>Resources := [(''a.png'', ''QQ''), (''b.png'', ''!'')]\<rparr>)) [])
            fresh_state)
       = Done 500 (Text ''illegal base64 data'')
   \<and> client_error (fst (handler plain_world store_server (POST BodyEOF []) fresh_state))"
proof -
  have td: "temp_dir plain_world (rootDir store_server) = Inr ''/srv/001''"
    by (simp add: plain_world_def store_server_def local_server_def)
  have ct: "content_type (POST b []) = ''application/json''" for b
    by (simp add: POST_def)
  have bad: "base64_decode plain_world (Template (hello\<lparr>Template := ''He!!o''\<rparr>))
       = Inl ''illegal base64 data''"
    by (simp add: plain_world_def)
  have bad': "base64_decode plain_world ''!'' = Inl ''illegal base64 data''"
    by (simp add: plain_world_def)
  have miss: "map_of (items (tmpls_t fresh_state)) k = None" for k
    by (simp add: fresh_state_def)
  have free: "\<not> tmpls_locked fresh_state"
    by (simp add: fresh_state_def)
  have dc: "delims_complete (hello\<lparr>Template := t\<rparr>)" for t
    by (simp add: delims_complete_def hello_def)
  have dc': "delims_complete (hello\<lparr>Resources := rs\<rparr>)" for rs
    by (simp add: delims_complete_def hello_def)
  have tr: "inline_template_resolves plain_world
        (hello\<lparr>Resources := [(''a.png'', ''QQ''), (''b.png'', ''!'')]\<rparr>) fresh_state"
    by (simp add: inline_template_resolves_def hello_def fresh_state_def plain_world_def)
  have ok: "resources_ok plain_world ''/srv/001'' [(''a.png'', ''QQ'')]"
    by (simp add: resources_ok_def plain_world_def)
  from decode_failures_answered_500 [OF td ct [of "BodyError ''unexpected EOF''"],
      where err = "''unexpected EOF''" and s = fresh_state]
  have a: "fst (handler plain_world store_server (POST (BodyError ''unexpected EOF'') [])
      fresh_state) = Done 500 (Text ''unexpected EOF'')"
    by (simp add: POST_def)
  from decode_failures_answered_500
      [OF td ct [of "Decoded (hello\<lparr>Template := ''He!!o''\<rparr>)"],
      where req = "hello\<lparr>Template := ''He!!o''\<rparr>" and err = "''illegal base64 data''"
        and s = fresh_state] bad miss free dc [of "''He!!o''"]
  have b: "fst (handler plain_world store_server
      (POST (Decoded (hello\<lparr>Template := ''He!!o''\<rparr>)) []) fresh_state)
      = Done 500 (Text ''illegal base64 data'')"
    by (simp add: POST_def hello_def)
  from decode_failures_answered_500
      [OF td ct [of "Decoded (hello\<lparr>Resources := [(''a.png'', ''QQ''), (''b.png'', ''!'')]\<rparr>)"],
      where req = "hello\<lparr>Resources := [(''a.png'', ''QQ''), (''b.png'', ''!'')]\<rparr>"
        and err = "''illegal base64 data''" and s = fresh_state
        and pre = "[(''a.png'', ''QQ'')]" and name = "''b.png''" and data = "''!''"
        and post = "[]"]
    bad' tr ok dc' [of "[(''a.png'', ''QQ''), (''b.png'', ''!'')]"]
  have c: "fst (handler plain_world store_server
      (POST (Decoded (hello\<lparr>Resources := [(''a.png'', ''QQ''), (''b.png'', ''!'')]\<rparr>)) [])
      fresh_state) = Done 500 (Text ''illegal base64 data'')"
    by (simp add: POST_def hello_def)
  from decode_failures_answered_500 [OF td ct [of BodyEOF], where s = fresh_state]
  have d: "client_error (fst (handler plain_world store_server (POST BodyEOF []) fresh_state))"
    by (simp add: POST_def client_error_def)
  from td a bad b tr ok c d show ?thesis by simp
qed

subsection \<open>The working directory\<close>

text \<open>Nothing in the body of the handler depends on how the removal of the
  working directory will end.\<close>

lemma primitives_remove_error [simp]:
  "os_Stat (w\<lparr>remove_error := g\<rparr>) = os_Stat w"
  "os_ReadFile (w\<lparr>remove_error := g\<rparr>) = os_ReadFile w"
  "os_WriteFile (w\<lparr>remove_error := g\<rparr>) = os_WriteFile w"
  "os_Symlink (w\<lparr>remove_error := g\<rparr>) = os_Symlink w"
  "toDisk (w\<lparr>remove_error := g\<rparr>) = toDisk w"
  "template_Parse (w\<lparr>remove_error := g\<rparr>) = template_Parse w"
  "cid (w\<lparr>remove_error := g\<rparr>) = cid w"
  by (auto simp: fun_eq_iff os_Stat_def os_ReadFile_def os_WriteFile_def os_Symlink_def
      toDisk_def template_Parse_def cid_def)

lemma write_resources_remove_error:
  "write_resources (w\<lparr>remove_error := g\<rparr>) workDir rs s = write_resources w workDir rs s"
proof (induction rs arbitrary: s)
  case Nil
  show ?case by simp
next
  case (Cons x rs)
  then show ?case by (cases x) (simp add: Let_def cong: case_congs)
qed

lemma resource_path_remove_error:
  "resource_path (w\<lparr>remove_error := g\<rparr>) srv rscID s = resource_path w srv rscID s"
  by (simp add: resource_path_def Let_def seq_def cong: case_congs)

lemma link_resources_remove_error:
  "link_resources (w\<lparr>remove_error := g\<rparr>) srv workDir ids s
     = link_resources w srv workDir ids s"
  by (induction ids arbitrary: s)
     (simp_all add: resource_path_remove_error seq_def cong: case_congs)

lemma json_body_remove_error:
  "json_body (w\<lparr>remove_error := g\<rparr>) r workDir d j s = json_body w r workDir d j s"
  by (simp add: json_body_def inline_template_def write_resources_remove_error seq_def Let_def
      cong: case_congs)

lemma url_template_remove_error:
  "url_template (w\<lparr>remove_error := g\<rparr>) srv r d j s = url_template w srv r d j s"
  by (simp add: url_template_def template_to_disk_def seq_def Let_def cong: case_congs)

lemma url_details_remove_error:
  "url_details (w\<lparr>remove_error := g\<rparr>) srv r j s = url_details w srv r j s"
  by (simp add: url_details_def details_to_disk_def decode_fetched_def seq_def Let_def
      cong: case_congs)

lemma handler_body_remove_error:
  "handler_body (w\<lparr>remove_error := g\<rparr>) srv r workDir s = handler_body w srv r workDir s"
  by (simp add: handler_body_def json_body_remove_error url_template_remove_error
      link_resources_remove_error url_details_remove_error compile_and_send_def seq_def Let_def
      cong: case_congs)

lemma remove_workDir_events:
  "events (remove_workDir w workDir s) =
     events s @ RemoveAll workDir #
       (case remove_error w workDir of None \<Rightarrow> [] | Some err \<Rightarrow> [ErrLog err])"
  by (simp add: remove_workDir_def os_RemoveAll_def record_event_def log_err_def
      split: option.splits)

lemma remove_workDir_gone:
  assumes "remove_error w workDir = None" and "inside workDir p"
  shows "\<not> present (remove_workDir w workDir s) p"
  using assms
  by (auto simp: remove_workDir_def os_RemoveAll_def record_event_def present_def
      map_of_eq_None_iff)

text \<open>
  C9.  For every request whose working directory was created, the
  directory is removed recursively after the handler has written its
  response, on the success path and on every error path alike, and a
  failure of the removal is only logged.  Let the handler return with
  status \<open>code\<close> and payload \<open>p\<close>, whatever they are.  Then the body of the
  handler ended with that response in a state \<open>s1\<close>, and the removal came
  after it: the events of the final state are those of \<open>s1\<close>, then the
  removal, then a log line if the removal failed.  If the removal
  succeeded, nothing is present at or below the directory.  And the
  response is the same however the removal ends.
\<close>

theorem workspace_removed_after_response:
  assumes "temp_dir w (rootDir srv) = Inr workDir"
    and "handler w srv r s = (Done code p, s')"
  shows "(\<exists>s1. handler_body w srv r workDir (entered workDir s) = (Done code p, s1)
            \<and> events s' = events s1 @ RemoveAll workDir #
                 (case remove_error w workDir of None \<Rightarrow> [] | Some err \<Rightarrow> [ErrLog err]))
     \<and> (remove_error w workDir = None \<longrightarrow> (\<forall>q. inside workDir q \<longrightarrow> \<not> present s' q))
     \<and> fst (handler (w\<lparr>remove_error := g\<rparr>) srv r s) = Done code p"
proof -
  obtain e s1 where hb: "handler_body w srv r workDir (entered workDir s) = (e, s1)"
    by (cases "handler_body w srv r workDir (entered workDir s)")
  from assms(2) hb have e: "e = Done code p" and s': "s' = remove_workDir w workDir s1"
    by (auto simp: handler_entered [OF assms(1)] split: exit.splits)
  have td': "temp_dir (w\<lparr>remove_error := g\<rparr>) (rootDir srv) = Inr workDir"
    using assms(1) by simp
  have "fst (handler (w\<lparr>remove_error := g\<rparr>) srv r s) = Done code p"
    using hb e by (simp add: fst_handler [OF td'] handler_body_remove_error)
  moreover have "\<exists>s1. handler_body w srv r workDir (entered workDir s) = (Done code p, s1)
            \<and> events s' = events s1 @ RemoveAll workDir #
                 (case remove_error w workDir of None \<Rightarrow> [] | Some err \<Rightarrow> [ErrLog err])"
    using hb e s' by (simp add: remove_workDir_events)
  moreover have "remove_error w workDir = None \<longrightarrow> (\<forall>q. inside workDir q \<longrightarrow> \<not> present s' q)"
    using s' remove_workDir_gone by blast
  ultimately show ?thesis by blast
qed

theorem workspace_removed_after_response_witness:
  "\<exists>s' s''.
     temp_dir plain_world (rootDir local_server) = Inr ''/srv/001''
     \<and> handler plain_world local_server (POST (Decoded hello) []) fresh_state
         = (Done 200 (Pdf ''%PDF''), s')
     \<and> last (events s') = RemoveAll ''/srv/001''
     \<and> \<not> present s' ''/srv/001'' \<and> \<not> present s' ''/srv/001/001.pdf''
     \<and> fst (handler (plain_world\<lparr>remove_error := (\<lambda>p. Some ''device busy'')\<rparr>) local_server
              (POST (Decoded hello) []) fresh_state)
         = Done 200 (Pdf ''%PDF'')
     \<and> handler plain_world local_server (GET []) fresh_state
         = (Done 400 (Text ''no template provided''), s'')
     \<and> last (events s'') = RemoveAll ''/srv/001''
     \<and> \<not> present s'' ''/srv/001''"
proof -
  have td: "temp_dir plain_world (rootDir local_server) = Inr ''/srv/001''"
    by (simp add: plain_world_def local_server_def)
  have none: "remove_error plain_world ''/srv/001'' = None"
    by (simp add: plain_world_def)
  have ins: "inside ''/srv/001'' ''/srv/001''" "inside ''/srv/001'' ''/srv/001/001.pdf''"
    by (simp_all add: inside_def)
  obtain s' where ok: "handler plain_world local_server (POST (Decoded hello) []) fresh_state
      = (Done 200 (Pdf ''%PDF''), s')"
    by (simp add: deployment_defs primitive_defs block_defs Let_def)
  obtain s'' where bad: "handler plain_world local_server (GET []) fresh_state
      = (Done 400 (Text ''no template provided''), s'')"
    by (simp add: deployment_defs primitive_defs block_defs Let_def)
  note a = workspace_removed_after_response [OF td ok,
      where g = "\<lambda>p. Some ''device busy''"]
  note b = workspace_removed_after_response [OF td bad, where g = "\<lambda>p. None"]
  have "last (events s') = RemoveAll ''/srv/001''"
    using a none by auto
  moreover have "\<not> present s' ''/srv/001''" "\<not> present s' ''/srv/001/001.pdf''"
    using a none ins by blast+
  moreover have "last (events s'') = RemoveAll ''/srv/001''"
    using b none by auto
  moreover have "\<not> present s'' ''/srv/001''"
    using b none ins by blast
  ultimately show ?thesis
    using td ok bad a by blast
qed

end
